theory Spec2Isabelle
  imports Main "HOL-Library.Log_Nat"
begin

section \<open>Python values used by the volume controller\<close>

subsection \<open>Floats\<close>

text \<open>
  A Python \<open>float\<close> is an IEEE 754 binary64 number.  A finite one is represented by the
  rational number it denotes; the two zeros are identified (Python's \<open>==\<close> does not
  tell them apart either).  Every arithmetic operation computes the exact rational result
  and rounds it to the nearest representable number, ties to the even significand.  The
  type also holds rationals that no binary64 number denotes; the floats of the examples
  below are results of \<open>round_to_double\<close>, and a decimal literal of the source is
  \<open>round_to_double\<close> of its decimal value.
\<close>

datatype pyfloat = Finite rat | PosInf | NegInf | NaN

definition round_half_even :: "rat \<Rightarrow> int" where
  "round_half_even q =
     (let f = \<lfloor>q\<rfloor>; d = q - of_int f
      in if d < 1 / 2 then f
         else if 1 / 2 < d then f + 1
         else if even f then f else f + 1)"

definition pow2 :: "int \<Rightarrow> rat" where
  "pow2 k = (if 0 \<le> k then 2 ^ nat k else 1 / 2 ^ nat (- k))"

text \<open>The exponent \<open>e\<close> with \<open>2 ^ e \<le> q < 2 ^ (e + 1)\<close>, for \<open>q > 0\<close>.\<close>

definition binary_exponent :: "rat \<Rightarrow> int" where
  "binary_exponent q =
     (if 1 \<le> q then int (floorlog 2 (nat \<lfloor>q\<rfloor>)) - 1
      else let k = int (floorlog 2 (nat \<lfloor>1 / q\<rfloor>)) - 1
           in if q = pow2 (- k) then - k else - k - 1)"

text \<open>
  Rounding to binary64: 53 significant bits, least exponent \<open>-1022\<close> (below it the
  spacing stays \<open>2 ^ -1074\<close>), overflow to an infinity from \<open>2 ^ 1024\<close> on.
\<close>

definition round_to_double :: "rat \<Rightarrow> pyfloat" where
  "round_to_double q =
     (if q = 0 then Finite 0
      else let e = max (binary_exponent \<bar>q\<bar>) (- 1022);
               ulp = pow2 (e - 52);
               r = of_int (round_half_even (q / ulp)) * ulp
           in if pow2 1024 \<le> \<bar>r\<bar> then (if 0 < q then PosInf else NegInf)
              else Finite r)"

text \<open>\<open>x * y\<close> on floats.\<close>

fun float_mul :: "pyfloat \<Rightarrow> pyfloat \<Rightarrow> pyfloat" where
  "float_mul (Finite a) (Finite b) = round_to_double (a * b)"
| "float_mul NaN _ = NaN"
| "float_mul _ NaN = NaN"
| "float_mul (Finite a) PosInf = (if a = 0 then NaN else if 0 < a then PosInf else NegInf)"
| "float_mul (Finite a) NegInf = (if a = 0 then NaN else if 0 < a then NegInf else PosInf)"
| "float_mul PosInf (Finite b) = (if b = 0 then NaN else if 0 < b then PosInf else NegInf)"
| "float_mul NegInf (Finite b) = (if b = 0 then NaN else if 0 < b then NegInf else PosInf)"
| "float_mul PosInf PosInf = PosInf"
| "float_mul PosInf NegInf = NegInf"
| "float_mul NegInf PosInf = NegInf"
| "float_mul NegInf NegInf = PosInf"

text \<open>\<open>x <= y\<close> and \<open>x < y\<close> on floats; every comparison with a NaN is false.\<close>

fun float_le :: "pyfloat \<Rightarrow> pyfloat \<Rightarrow> bool" where
  "float_le NaN _ = False"
| "float_le _ NaN = False"
| "float_le (Finite a) (Finite b) = (a \<le> b)"
| "float_le NegInf _ = True"
| "float_le _ PosInf = True"
| "float_le PosInf _ = False"
| "float_le _ NegInf = False"

fun float_lt :: "pyfloat \<Rightarrow> pyfloat \<Rightarrow> bool" where
  "float_lt NaN _ = False"
| "float_lt _ NaN = False"
| "float_lt (Finite a) (Finite b) = (a < b)"
| "float_lt PosInf _ = False"
| "float_lt _ NegInf = False"
| "float_lt NegInf _ = True"
| "float_lt _ PosInf = True"

text \<open>
  \<open>round(x, ndigits)\<close> for a float \<open>x\<close> and the digit counts the source uses (1 and 2):
  the exact value of \<open>x\<close> is rounded half-to-even to \<open>ndigits\<close> decimal places and the
  decimal result is converted back to the nearest float.  Infinities and NaN round to
  themselves.
\<close>

fun py_round :: "pyfloat \<Rightarrow> nat \<Rightarrow> pyfloat" where
  "py_round (Finite x) ndigits =
     round_to_double (of_int (round_half_even (x * 10 ^ ndigits)) / 10 ^ ndigits)"
| "py_round x ndigits = x"

subsection \<open>Exceptions\<close>

text \<open>
  An exception is known by its class and by \<open>str(e)\<close>.  \<open>NonException\<close> stands for the
  classes that derive from \<open>BaseException\<close> but not from \<open>Exception\<close>
  (\<open>KeyboardInterrupt\<close>, \<open>SystemExit\<close>, \<open>GeneratorExit\<close>); \<open>OtherException\<close> for every
  other subclass of \<open>Exception\<close>, such as the COM errors of the audio library.
\<close>

datatype exception_class =
  RuntimeError | ValueError | ZeroDivisionError | KeyError | OtherException | NonException

datatype py_exception = Raised exception_class string

fun isinstance_Exception :: "py_exception \<Rightarrow> bool" where
  "isinstance_Exception (Raised c msg) = (c \<noteq> NonException)"

fun str_exception :: "py_exception \<Rightarrow> string" where
  "str_exception (Raised c msg) = msg"

text \<open>\<open>x / y\<close> on floats.\<close>

fun float_truediv :: "pyfloat \<Rightarrow> pyfloat \<Rightarrow> py_exception + pyfloat" where
  "float_truediv x (Finite b) =
     (if b = 0 then Inl (Raised ZeroDivisionError ''float division by zero'')
      else case x of
             Finite a \<Rightarrow> Inr (round_to_double (a / b))
           | PosInf \<Rightarrow> Inr (if 0 < b then PosInf else NegInf)
           | NegInf \<Rightarrow> Inr (if 0 < b then NegInf else PosInf)
           | NaN \<Rightarrow> Inr NaN)"
| "float_truediv NaN _ = Inr NaN"
| "float_truediv _ NaN = Inr NaN"
| "float_truediv (Finite a) _ = Inr (Finite 0)"
| "float_truediv _ _ = Inr NaN"

subsection \<open>Result dictionaries\<close>

datatype pyval = PyFloat pyfloat | PyBool bool | PyStr string

text \<open>A \<open>dict\<close> literal, in the order its keys are written.\<close>

type_synonym pydict = "(string \<times> pyval) list"

text \<open>
  \<open>d[k]\<close>.  The message of a \<open>KeyError\<close> is the key as Python writes it, between single
  quotes (the keys of the source hold no quote and no character that is escaped).
\<close>

definition getitem :: "pydict \<Rightarrow> string \<Rightarrow> py_exception + pyval" where
  "getitem d k =
     (case map_of d k of
        None \<Rightarrow> Inl (Raised KeyError ([CHR 0x27] @ k @ [CHR 0x27]))
      | Some v \<Rightarrow> Inr v)"

text \<open>Truth value of an object in a condition.\<close>

fun truthy :: "pyval \<Rightarrow> bool" where
  "truthy (PyBool b) = b"
| "truthy (PyStr s) = (s \<noteq> [])"
| "truthy (PyFloat x) = (x \<noteq> Finite 0)"

section \<open>The audio endpoint\<close>

text \<open>
  The endpoint volume interface of the audio library is not part of the repository; the
  controller is parametric in it.  \<open>'s\<close> is the state of the device behind the handle.
  Every call may change that state, and returns a value or raises.  \<open>GetMute\<close> returns
  an integer (a COM \<open>BOOL\<close>).  The second argument of the two setters is always \<open>None\<close>
  in the source and is left out.
\<close>

record 's IAudioEndpointVolume =
  GetMasterVolumeLevelScalar :: "'s \<Rightarrow> (py_exception + pyfloat) \<times> 's"
  GetMasterVolumeLevel :: "'s \<Rightarrow> (py_exception + pyfloat) \<times> 's"
  GetMute :: "'s \<Rightarrow> (py_exception + int) \<times> 's"
  SetMasterVolumeLevelScalar :: "pyfloat \<Rightarrow> 's \<Rightarrow> (py_exception + unit) \<times> 's"
  SetMute :: "int \<Rightarrow> 's \<Rightarrow> (py_exception + unit) \<times> 's"

text \<open>Statements of a \<open>try\<close> body in sequence: an exception ends the body.\<close>

definition call ::
  "('s \<Rightarrow> (py_exception + 'a) \<times> 's) \<Rightarrow> ('a \<Rightarrow> 's \<Rightarrow> (py_exception + 'b) \<times> 's)
     \<Rightarrow> 's \<Rightarrow> (py_exception + 'b) \<times> 's" where
  "call m k s = (case m s of (Inl e, s') \<Rightarrow> (Inl e, s') | (Inr v, s') \<Rightarrow> k v s')"

definition return :: "'a \<Rightarrow> 's \<Rightarrow> (py_exception + 'a) \<times> 's" where
  "return v s = (Inr v, s)"

definition raise :: "py_exception \<Rightarrow> 's \<Rightarrow> (py_exception + 'a) \<times> 's" where
  "raise e s = (Inl e, s)"

text \<open>Truth value of the integer that \<open>GetMute\<close> returns: \<open>bool(x)\<close>.\<close>

definition py_bool :: "int \<Rightarrow> bool" where
  "py_bool x = (x \<noteq> 0)"

section \<open>VolumeController\<close>

text \<open>
  The only attribute is \<open>_volume\<close>: \<open>None\<close>, or the endpoint handle, here the state of
  the device it controls.  Log output is not modelled.
\<close>

record 's VolumeController =
  volume :: "'s option"

text \<open>
  \<open>__init__\<close> sets \<open>_volume\<close> to \<open>None\<close> and calls \<open>_initialize_audio\<close>.  The argument
  \<open>acquired\<close> is the outcome of importing the audio library and activating the default
  speakers.  Both handlers of \<open>_initialize_audio\<close> re-raise, so the exception leaves
  \<open>__init__\<close> as well; the pair returned is the exception, if any, and the object.
\<close>

definition initialize_audio ::
  "py_exception + 's \<Rightarrow> 's VolumeController \<Rightarrow> py_exception option \<times> 's VolumeController" where
  "initialize_audio acquired self =
     (case acquired of
        Inr interface \<Rightarrow> (None, self\<lparr>volume := Some interface\<rparr>)
      | Inl e \<Rightarrow> (Some e, self))"

definition init :: "py_exception + 's \<Rightarrow> py_exception option \<times> 's VolumeController" where
  "init acquired = initialize_audio acquired \<lparr>volume = None\<rparr>"

text \<open>
  The handler \<open>except Exception as e: return {"error": str(e), "status": "error"}\<close>
  that closes every method.  An exception outside \<open>Exception\<close> is not caught.
\<close>

definition error_result :: "py_exception \<Rightarrow> pydict" where
  "error_result e = [(''error'', PyStr (str_exception e)), (''status'', PyStr ''error'')]"

fun except_Exception ::
  "(py_exception + pydict) \<times> 'c \<Rightarrow> (py_exception + pydict) \<times> 'c" where
  "except_Exception (Inl e, c) =
     (if isinstance_Exception e then (Inr (error_result e), c) else (Inl e, c))"
| "except_Exception (Inr r, c) = (Inr r, c)"

text \<open>
  The body of a method from the endpoint's side: the guard \<open>if not self._volume\<close>, then
  the statements that use the handle.
\<close>

definition with_volume ::
  "'s VolumeController \<Rightarrow> ('s \<Rightarrow> (py_exception + pydict) \<times> 's)
     \<Rightarrow> (py_exception + pydict) \<times> 's VolumeController" where
  "with_volume self body =
     (case volume self of
        None \<Rightarrow> (Inl (Raised RuntimeError ''Audio interface not initialized''), self)
      | Some s \<Rightarrow> (case body s of (r, s') \<Rightarrow> (r, self\<lparr>volume := Some s'\<rparr>)))"

definition get_volume ::
  "'s IAudioEndpointVolume \<Rightarrow> 's VolumeController
     \<Rightarrow> (py_exception + pydict) \<times> 's VolumeController" where
  "get_volume ep self =
     except_Exception (with_volume self
       (call (GetMasterVolumeLevelScalar ep) (\<lambda>volume_scalar.
        call (GetMasterVolumeLevel ep) (\<lambda>volume_db.
        call (GetMute ep) (\<lambda>is_muted.
        return
          [(''volume_percentage'', PyFloat (py_round (float_mul volume_scalar (Finite 100)) 1)),
           (''volume_scalar'', PyFloat volume_scalar),
           (''volume_db'', PyFloat (py_round volume_db 2)),
           (''is_muted'', PyBool (py_bool is_muted)),
           (''status'', PyStr ''success'')])))))"

definition set_volume ::
  "'s IAudioEndpointVolume \<Rightarrow> 's VolumeController \<Rightarrow> pyfloat
     \<Rightarrow> (py_exception + pydict) \<times> 's VolumeController" where
  "set_volume ep self percentage =
     except_Exception (with_volume self
       (if \<not> (float_le (Finite 0) percentage \<and> float_le percentage (Finite 100))
        then raise (Raised ValueError ''Volume percentage must be between 0 and 100'')
        else
          call (\<lambda>s. (float_truediv percentage (Finite 100), s)) (\<lambda>volume_scalar.
          call (SetMasterVolumeLevelScalar ep volume_scalar) (\<lambda>_.
          call (GetMasterVolumeLevelScalar ep) (\<lambda>actual_volume.
          return
            [(''requested_percentage'', PyFloat percentage),
             (''actual_percentage'', PyFloat (py_round (float_mul actual_volume (Finite 100)) 1)),
             (''volume_scalar'', PyFloat actual_volume),
             (''status'', PyStr ''success'')])))))"

definition mute ::
  "'s IAudioEndpointVolume \<Rightarrow> 's VolumeController
     \<Rightarrow> (py_exception + pydict) \<times> 's VolumeController" where
  "mute ep self =
     except_Exception (with_volume self
       (call (GetMute ep) (\<lambda>was_muted.
        if py_bool was_muted
        then return
          [(''message'', PyStr ''System was already muted''),
           (''was_muted'', PyBool True),
           (''is_muted'', PyBool True),
           (''status'', PyStr ''success'')]
        else
          call (SetMute ep 1) (\<lambda>_.
          return
            [(''message'', PyStr ''System muted successfully''),
             (''was_muted'', PyBool False),
             (''is_muted'', PyBool True),
             (''status'', PyStr ''success'')]))))"

definition unmute ::
  "'s IAudioEndpointVolume \<Rightarrow> 's VolumeController
     \<Rightarrow> (py_exception + pydict) \<times> 's VolumeController" where
  "unmute ep self =
     except_Exception (with_volume self
       (call (GetMute ep) (\<lambda>was_muted.
        if \<not> py_bool was_muted
        then return
          [(''message'', PyStr ''System was already unmuted''),
           (''was_muted'', PyBool False),
           (''is_muted'', PyBool False),
           (''status'', PyStr ''success'')]
        else
          call (SetMute ep 0) (\<lambda>_.
          return
            [(''message'', PyStr ''System unmuted successfully''),
             (''was_muted'', PyBool True),
             (''is_muted'', PyBool False),
             (''status'', PyStr ''success'')]))))"

definition toggle_mute ::
  "'s IAudioEndpointVolume \<Rightarrow> 's VolumeController
     \<Rightarrow> (py_exception + pydict) \<times> 's VolumeController" where
  "toggle_mute ep self =
     except_Exception (with_volume self
       (call (GetMute ep) (\<lambda>current_mute.
        let new_mute = \<not> py_bool current_mute;
            action = (if new_mute then ''muted'' else ''unmuted'')
        in call (SetMute ep (if new_mute then 1 else 0)) (\<lambda>_.
           return
             [(''message'', PyStr (''System '' @ action @ '' successfully'')),
              (''was_muted'', PyBool (py_bool current_mute)),
              (''is_muted'', PyBool new_mute),
              (''action'', PyStr action),
              (''status'', PyStr ''success'')]))))"

section \<open>The tool functions\<close>

text \<open>
  The module keeps one controller, \<open>volume_controller\<close>, and five functions registered
  as tools; each calls the method of the same name and renders the dictionary as text.
  Strings hold the UTF-8 encoding of the source's text; the three icons are the
  characters the source file has in front of each message.  \<open>repr\<close> is Python's
  conversion of a float to text, which the repository does not define.
\<close>

definition speaker_icon :: string where
  "speaker_icon =
     [CHR 0xC4, CHR 0x9F, CHR 0xC5, CHR 0xB8, CHR 0xE2, CHR 0x80, CHR 0x9D, CHR 0xC5, CHR 0xA0]"

definition muted_icon :: string where
  "muted_icon =
     [CHR 0xC4, CHR 0x9F, CHR 0xC5, CHR 0xB8, CHR 0xE2, CHR 0x80, CHR 0x9D, CHR 0xE2, CHR 0x80,
      CHR 0xA1]"

definition mute_icon :: string where
  "mute_icon = [CHR 0xC3, CHR 0xAF, CHR 0xC2, CHR 0xBF, CHR 0xC2, CHR 0xBD]"

definition error_icon :: string where
  "error_icon = [CHR 0xC3, CHR 0xA2, CHR 0xC5, CHR 0x92]"

text \<open>A replacement field \<open>{v}\<close> of an f-string.\<close>

fun format_value :: "(pyfloat \<Rightarrow> string) \<Rightarrow> pyval \<Rightarrow> string" where
  "format_value repr (PyStr s) = s"
| "format_value repr (PyBool b) = (if b then ''True'' else ''False'')"
| "format_value repr (PyFloat x) = repr x"

text \<open>Evaluation of subexpressions in sequence: the first exception ends it.\<close>

definition then_eval :: "py_exception + 'a \<Rightarrow> ('a \<Rightarrow> py_exception + 'b) \<Rightarrow> py_exception + 'b" where
  "then_eval m k = (case m of Inl e \<Rightarrow> Inl e | Inr v \<Rightarrow> k v)"

definition render_error :: "(pyfloat \<Rightarrow> string) \<Rightarrow> pydict \<Rightarrow> py_exception + string" where
  "render_error repr result =
     then_eval (getitem result ''error'') (\<lambda>error.
     Inr (error_icon @ '' Error: '' @ format_value repr error))"

definition render_message ::
  "string \<Rightarrow> (pyfloat \<Rightarrow> string) \<Rightarrow> pydict \<Rightarrow> py_exception + string" where
  "render_message icon repr result =
     then_eval (getitem result ''status'') (\<lambda>status.
     if status = PyStr ''success''
     then then_eval (getitem result ''message'') (\<lambda>message.
          Inr (icon @ '' '' @ format_value repr message))
     else render_error repr result)"

definition tool ::
  "(pydict \<Rightarrow> py_exception + string) \<Rightarrow> (py_exception + pydict) \<times> 'c
     \<Rightarrow> (py_exception + string) \<times> 'c" where
  "tool render outcome =
     (case outcome of (Inl e, c) \<Rightarrow> (Inl e, c) | (Inr result, c) \<Rightarrow> (render result, c))"

definition tool_get_volume ::
  "(pyfloat \<Rightarrow> string) \<Rightarrow> 's IAudioEndpointVolume \<Rightarrow> 's VolumeController
     \<Rightarrow> (py_exception + string) \<times> 's VolumeController" where
  "tool_get_volume repr ep volume_controller =
     tool (\<lambda>result.
       then_eval (getitem result ''status'') (\<lambda>status.
       if status = PyStr ''success''
       then then_eval (getitem result ''volume_percentage'') (\<lambda>volume_percentage.
            then_eval (getitem result ''is_muted'') (\<lambda>is_muted.
            then_eval (getitem result ''volume_db'') (\<lambda>volume_db.
            Inr (speaker_icon @ '' Volume: '' @ format_value repr volume_percentage
                 @ ''% | Muted: '' @ (if truthy is_muted then ''Yes'' else ''No'')
                 @ '' | dB: '' @ format_value repr volume_db))))
       else render_error repr result))
       (get_volume ep volume_controller)"

definition tool_set_volume ::
  "(pyfloat \<Rightarrow> string) \<Rightarrow> 's IAudioEndpointVolume \<Rightarrow> 's VolumeController \<Rightarrow> pyfloat
     \<Rightarrow> (py_exception + string) \<times> 's VolumeController" where
  "tool_set_volume repr ep volume_controller percentage =
     tool (\<lambda>result.
       then_eval (getitem result ''status'') (\<lambda>status.
       if status = PyStr ''success''
       then then_eval (getitem result ''actual_percentage'') (\<lambda>actual_percentage.
            then_eval (getitem result ''requested_percentage'') (\<lambda>requested_percentage.
            Inr (speaker_icon @ '' Volume set to '' @ format_value repr actual_percentage
                 @ ''% (requested: '' @ format_value repr requested_percentage @ ''%)'')))
       else render_error repr result))
       (set_volume ep volume_controller percentage)"

definition tool_mute ::
  "(pyfloat \<Rightarrow> string) \<Rightarrow> 's IAudioEndpointVolume \<Rightarrow> 's VolumeController
     \<Rightarrow> (py_exception + string) \<times> 's VolumeController" where
  "tool_mute repr ep volume_controller =
     tool (render_message mute_icon repr) (mute ep volume_controller)"

definition tool_unmute ::
  "(pyfloat \<Rightarrow> string) \<Rightarrow> 's IAudioEndpointVolume \<Rightarrow> 's VolumeController
     \<Rightarrow> (py_exception + string) \<times> 's VolumeController" where
  "tool_unmute repr ep volume_controller =
     tool (render_message muted_icon repr) (unmute ep volume_controller)"

definition tool_toggle_mute ::
  "(pyfloat \<Rightarrow> string) \<Rightarrow> 's IAudioEndpointVolume \<Rightarrow> 's VolumeController
     \<Rightarrow> (py_exception + string) \<times> 's VolumeController" where
  "tool_toggle_mute repr ep volume_controller =
     tool (render_message muted_icon repr) (toggle_mute ep volume_controller)"

section \<open>Test doubles\<close>

text \<open>
  A recording wrapper around any endpoint: it keeps, in order, every call that reached
  the endpoint and the exception the call raised, if it raised one.
\<close>

datatype endpoint_call =
  CallGetMasterVolumeLevelScalar
| CallGetMasterVolumeLevel
| CallGetMute
| CallSetMasterVolumeLevelScalar pyfloat
| CallSetMute int

fun is_write :: "endpoint_call \<Rightarrow> bool" where
  "is_write (CallSetMasterVolumeLevelScalar v) = True"
| "is_write (CallSetMute b) = True"
| "is_write c = False"

type_synonym call_log = "(endpoint_call \<times> py_exception option) list"

definition recorded ::
  "endpoint_call \<Rightarrow> ('s \<Rightarrow> (py_exception + 'a) \<times> 's)
     \<Rightarrow> 's \<times> call_log \<Rightarrow> (py_exception + 'a) \<times> ('s \<times> call_log)" where
  "recorded c m sl =
     (case m (fst sl) of
        (Inl e, s') \<Rightarrow> (Inl e, (s', snd sl @ [(c, Some e)]))
      | (Inr v, s') \<Rightarrow> (Inr v, (s', snd sl @ [(c, None)])))"

definition spy :: "'s IAudioEndpointVolume \<Rightarrow> ('s \<times> call_log) IAudioEndpointVolume" where
  "spy ep =
     \<lparr>GetMasterVolumeLevelScalar =
        recorded CallGetMasterVolumeLevelScalar (GetMasterVolumeLevelScalar ep),
      GetMasterVolumeLevel = recorded CallGetMasterVolumeLevel (GetMasterVolumeLevel ep),
      GetMute = recorded CallGetMute (GetMute ep),
      SetMasterVolumeLevelScalar =
        (\<lambda>v. recorded (CallSetMasterVolumeLevelScalar v) (SetMasterVolumeLevelScalar ep v)),
      SetMute = (\<lambda>b. recorded (CallSetMute b) (SetMute ep b))\<rparr>"

text \<open>
  A fake endpoint with exact scalar semantics: it stores the scalar it is given and
  returns it unchanged; it stores the mute flag and returns it as 1 or 0.  A method whose
  name is in \<open>faults\<close> raises the exception listed there and does nothing else.
\<close>

record fake_endpoint =
  scalar :: pyfloat
  level_db :: pyfloat
  muted :: bool
  faults :: "(string \<times> py_exception) list"

definition fake_method ::
  "string \<Rightarrow> (fake_endpoint \<Rightarrow> 'a \<times> fake_endpoint) \<Rightarrow> fake_endpoint
     \<Rightarrow> (py_exception + 'a) \<times> fake_endpoint" where
  "fake_method name impl s =
     (case map_of (faults s) name of
        Some e \<Rightarrow> (Inl e, s)
      | None \<Rightarrow> (case impl s of (v, s') \<Rightarrow> (Inr v, s')))"

definition fake :: "fake_endpoint IAudioEndpointVolume" where
  "fake =
     \<lparr>GetMasterVolumeLevelScalar = fake_method ''GetMasterVolumeLevelScalar'' (\<lambda>s. (scalar s, s)),
      GetMasterVolumeLevel = fake_method ''GetMasterVolumeLevel'' (\<lambda>s. (level_db s, s)),
      GetMute = fake_method ''GetMute'' (\<lambda>s. (if muted s then 1 else 0, s)),
      SetMasterVolumeLevelScalar =
        (\<lambda>v. fake_method ''SetMasterVolumeLevelScalar'' (\<lambda>s. ((), s\<lparr>scalar := v\<rparr>))),
      SetMute = (\<lambda>b. fake_method ''SetMute'' (\<lambda>s. ((), s\<lparr>muted := (b \<noteq> 0)\<rparr>)))\<rparr>"

text \<open>
  The fake endpoint with another \<open>SetMute\<close>: it stores the flag and then raises, as a
  device does that applies a change and reports a failure afterwards.
\<close>

definition applies_then_raises :: "fake_endpoint IAudioEndpointVolume" where
  "applies_then_raises =
     fake\<lparr>SetMute :=
       (\<lambda>b s. (Inl (Raised OtherException ''change notification failed''),
               s\<lparr>muted := (b \<noteq> 0)\<rparr>))\<rparr>"

section \<open>Calls from outside\<close>

text \<open>
  The five operations a caller can ask for, and the method each one runs.  The tools are
  called one after another on the same controller.
\<close>

datatype operation = GetVolume | SetVolume pyfloat | Mute | Unmute | ToggleMute

fun perform ::
  "'s IAudioEndpointVolume \<Rightarrow> operation \<Rightarrow> 's VolumeController
     \<Rightarrow> (py_exception + pydict) \<times> 's VolumeController" where
  "perform ep GetVolume self = get_volume ep self"
| "perform ep (SetVolume percentage) self = set_volume ep self percentage"
| "perform ep Mute self = mute ep self"
| "perform ep Unmute self = unmute ep self"
| "perform ep ToggleMute self = toggle_mute ep self"

fun perform_all ::
  "'s IAudioEndpointVolume \<Rightarrow> operation list \<Rightarrow> 's VolumeController
     \<Rightarrow> (py_exception + pydict) list \<times> 's VolumeController" where
  "perform_all ep [] self = ([], self)"
| "perform_all ep (op # ops) self =
     (case perform ep op self of
        (r, self') \<Rightarrow> (case perform_all ep ops self' of (rs, self'') \<Rightarrow> (r # rs, self'')))"

text \<open>The same through the tool functions.\<close>

fun perform_tool ::
  "(pyfloat \<Rightarrow> string) \<Rightarrow> 's IAudioEndpointVolume \<Rightarrow> operation \<Rightarrow> 's VolumeController
     \<Rightarrow> (py_exception + string) \<times> 's VolumeController" where
  "perform_tool repr ep GetVolume volume_controller = tool_get_volume repr ep volume_controller"
| "perform_tool repr ep (SetVolume percentage) volume_controller =
     tool_set_volume repr ep volume_controller percentage"
| "perform_tool repr ep Mute volume_controller = tool_mute repr ep volume_controller"
| "perform_tool repr ep Unmute volume_controller = tool_unmute repr ep volume_controller"
| "perform_tool repr ep ToggleMute volume_controller = tool_toggle_mute repr ep volume_controller"

section \<open>What is assumed of an endpoint\<close>

text \<open>
  Two properties an endpoint may have; the theorems that need one say so.  The three
  getters leave the device as it is, and a setter that raises has changed nothing.
\<close>

definition getters_preserve_state :: "'s IAudioEndpointVolume \<Rightarrow> bool" where
  "getters_preserve_state ep \<longleftrightarrow>
     (\<forall>s. snd (GetMasterVolumeLevelScalar ep s) = s
        \<and> snd (GetMasterVolumeLevel ep s) = s
        \<and> snd (GetMute ep s) = s)"

definition failed_setter_changes_nothing :: "'s IAudioEndpointVolume \<Rightarrow> bool" where
  "failed_setter_changes_nothing ep \<longleftrightarrow>
     (\<forall>v s e s'. SetMasterVolumeLevelScalar ep v s = (Inl e, s') \<longrightarrow> s' = s)
     \<and> (\<forall>b s e s'. SetMute ep b s = (Inl e, s') \<longrightarrow> s' = s)"

text \<open>The tag of a result: the Error variant has \<open>"status": "error"\<close>.\<close>

definition is_error :: "pydict \<Rightarrow> bool" where
  "is_error d = (map_of d ''status'' = Some (PyStr ''error''))"

section \<open>Fixtures\<close>

text \<open>
  The fake endpoint of the specification's example: scalar \<open>0.57\<close>, \<open>-12.345\<close> dB, not
  muted.  A decimal literal denotes the float nearest to it.
\<close>

definition preset :: fake_endpoint where
  "preset =
     \<lparr>scalar = round_to_double (57 / 100), level_db = round_to_double (- 12345 / 1000),
      muted = False, faults = []\<rparr>"

text \<open>The same endpoint with one method that raises.\<close>

definition failing :: "string \<Rightarrow> py_exception \<Rightarrow> fake_endpoint" where
  "failing name e = preset\<lparr>faults := [(name, e)]\<rparr>"

text \<open>
  Python's text for the two floats of the example reading, \<open>57.0\<close> and \<open>-12.35\<close>; no
  other float is rendered with it.
\<close>

definition repr_example :: "pyfloat \<Rightarrow> string" where
  "repr_example x = (if x = Finite 57 then ''57.0'' else ''-12.35'')"

section \<open>Evaluation\<close>

lemmas facade_defs = get_volume_def set_volume_def mute_def unmute_def toggle_mute_def
  with_volume_def call_def return_def raise_def

lemmas spy_defs = spy_def recorded_def

lemmas fake_defs = fake_def fake_method_def

lemma floor_rat_numeral: "\<lfloor>(numeral a / numeral b :: rat)\<rfloor> = numeral a div numeral b"
  using floor_divide_of_int_eq [of "numeral a" "numeral b", where ?'a = rat] by simp

lemma floor_rat_neg_numeral:
  "\<lfloor>- (numeral a / numeral b :: rat)\<rfloor> = - numeral a div numeral b"
  using floor_divide_of_int_eq [of "- numeral a" "numeral b", where ?'a = rat] by simp

lemmas float_eval = round_to_double_def binary_exponent_def pow2_def round_half_even_def
  compute_floorlog floor_rat_numeral floor_rat_neg_numeral

section \<open>The rounding of the float model\<close>

text \<open>
  \<open>binary_exponent\<close> is the exponent of the binade of a positive number, and a finite
  result of \<open>round_to_double\<close> lies within half a unit in the last place of the exact
  value.
\<close>

lemma pow2_powi: "pow2 k = 2 powi k"
  by (simp add: pow2_def power_int_def power_inverse inverse_eq_divide power_one_over)

lemma pow2_pos: "0 < pow2 k"
  by (simp add: pow2_powi)

lemma pow2_Suc: "pow2 (k + 1) = 2 * pow2 k"
  by (simp add: pow2_powi power_int_add)

lemma pow2_nat: "pow2 (int n) = 2 ^ n"
  by (simp add: pow2_def)

lemma pow2_neg_nat: "pow2 (- int n) = 1 / 2 ^ n"
  by (simp add: pow2_powi power_int_minus inverse_eq_divide)

lemma floorlog_2_bounds:
  assumes "0 < n"
  shows "2 ^ (floorlog 2 n - 1) \<le> n \<and> n < 2 ^ floorlog 2 n \<and> 0 < floorlog 2 n"
  using floorlog_bounds [of n 2] assms by (auto simp: floorlog_eq_zero_iff intro: Nat.gr0I)

lemma floor_sandwich:
  fixes x :: rat
  assumes "1 \<le> x"
  shows "\<exists>L > 0. (2::rat) ^ (L - 1) \<le> x \<and> x < 2 ^ L \<and> L = floorlog 2 (nat \<lfloor>x\<rfloor>)"
proof -
  let ?n = "nat \<lfloor>x\<rfloor>"
  have n: "0 < ?n" using assms by simp
  from floorlog_2_bounds [OF n] have lo: "2 ^ (floorlog 2 ?n - 1) \<le> ?n"
    and hi: "?n < 2 ^ floorlog 2 ?n" and pos: "0 < floorlog 2 ?n" by simp_all
  have nx: "rat_of_nat ?n \<le> x" using assms by (simp add: of_nat_nat)
  have "(2::rat) ^ (floorlog 2 ?n - 1) = rat_of_nat (2 ^ (floorlog 2 ?n - 1))" by simp
  also have "\<dots> \<le> rat_of_nat ?n" using lo by (simp only: of_nat_le_iff)
  also note nx
  finally have a: "(2::rat) ^ (floorlog 2 ?n - 1) \<le> x" .
  have "x < rat_of_int (\<lfloor>x\<rfloor> + 1)" by linarith
  also have "\<dots> = rat_of_nat (?n + 1)" using assms by (simp add: of_nat_nat)
  also have "\<dots> \<le> rat_of_nat (2 ^ floorlog 2 ?n)"
    using hi by (simp only: of_nat_le_iff)
  finally have b: "x < 2 ^ floorlog 2 ?n" by simp
  from a b pos show ?thesis by blast
qed

lemma binary_exponent_bounds:
  assumes "0 < q"
  shows "pow2 (binary_exponent q) \<le> q \<and> q < pow2 (binary_exponent q + 1)"
proof (cases "1 \<le> q")
  case True
  from floor_sandwich [OF True] obtain L where L: "0 < L" "(2::rat) ^ (L - 1) \<le> q" "q < 2 ^ L"
    "L = floorlog 2 (nat \<lfloor>q\<rfloor>)" by blast
  have e: "binary_exponent q = int (L - 1)"
    using True L(1,4) by (simp add: binary_exponent_def of_nat_diff)
  have "int (L - 1) + 1 = int L" using L(1) by simp
  then have p: "pow2 (int (L - 1)) = 2 ^ (L - 1)" "pow2 (int (L - 1) + 1) = 2 ^ L"
    by (simp_all only: pow2_nat)
  show ?thesis
    unfolding e p using L(2,3) by blast
next
  case False
  then have q1: "q < 1" by simp
  let ?x = "1 / q"
  have x1: "1 \<le> ?x" using assms q1 by (simp add: le_divide_eq_1_pos)
  from floor_sandwich [OF x1] obtain L where L: "0 < L" "(2::rat) ^ (L - 1) \<le> ?x" "?x < 2 ^ L"
    "L = floorlog 2 (nat \<lfloor>?x\<rfloor>)" by blast
  let ?k = "int (L - 1)"
  have k: "int (floorlog 2 (nat \<lfloor>?x\<rfloor>)) - 1 = ?k" using L(1,4) by (simp add: of_nat_diff)
  have up: "q \<le> 1 / 2 ^ (L - 1)"
    using L(2) assms by (simp add: field_simps)
  have lo: "1 / 2 ^ L < q"
    using L(3) assms by (simp add: field_simps)
  show ?thesis
  proof (cases "q = pow2 (- ?k)")
    case True
    then have e: "binary_exponent q = - ?k"
      using q1 k by (simp add: binary_exponent_def Let_def)
    have "pow2 (- ?k + 1) = 2 * pow2 (- ?k)" by (rule pow2_Suc)
    then have "q < pow2 (- ?k + 1)"
      using True pow2_pos [of "- ?k"] by simp
    then show ?thesis unfolding e using True by simp
  next
    case neq: False
    then have e: "binary_exponent q = - ?k - 1"
      using q1 k by (simp add: binary_exponent_def Let_def)
    have p1: "pow2 (- ?k - 1) = 1 / 2 ^ L"
    proof -
      have "- ?k - 1 = - int L" using L(1) by simp
      then show ?thesis by (simp only: pow2_neg_nat)
    qed
    have p2: "pow2 (- ?k - 1 + 1) = 1 / 2 ^ (L - 1)"
      by (simp add: pow2_neg_nat)
    have "q < 1 / 2 ^ (L - 1)"
      using up neq by (simp add: pow2_neg_nat less_le)
    then show ?thesis unfolding e p1 p2 using lo by simp
  qed
qed

lemma round_half_even_nearest: "\<bar>rat_of_int (round_half_even x) - x\<bar> \<le> 1 / 2"
proof -
  have "rat_of_int \<lfloor>x\<rfloor> \<le> x" and "x < rat_of_int \<lfloor>x\<rfloor> + 1" by linarith+
  then show ?thesis
    by (auto simp: round_half_even_def Let_def abs_le_iff)
qed

lemma round_to_double_nearest:
  assumes "round_to_double q = Finite r" and "q \<noteq> 0"
  shows "\<bar>r - q\<bar> \<le> pow2 (max (binary_exponent \<bar>q\<bar>) (- 1022) - 52) / 2"
proof -
  define ulp where "ulp = pow2 (max (binary_exponent \<bar>q\<bar>) (- 1022) - 52)"
  define m where "m = rat_of_int (round_half_even (q / ulp))"
  have ulp: "0 < ulp" unfolding ulp_def by (rule pow2_pos)
  from assms(1)
  have "(if pow2 1024 \<le> \<bar>m * ulp\<bar> then (if 0 < q then PosInf else NegInf)
         else Finite (m * ulp)) = Finite r"
    unfolding round_to_double_def Let_def m_def ulp_def if_not_P [OF assms(2)] .
  then have r: "r = m * ulp"
    by (simp split: if_splits)
  have near: "\<bar>m - q / ulp\<bar> \<le> 1 / 2"
    unfolding m_def by (rule round_half_even_nearest)
  have "r - q = (m - q / ulp) * ulp"
    using ulp unfolding r by (simp add: left_diff_distrib)
  then have "\<bar>r - q\<bar> = \<bar>m - q / ulp\<bar> * ulp"
    using ulp by (simp add: abs_mult)
  also have "\<dots> \<le> (1 / 2) * ulp"
    using near ulp by (intro mult_right_mono) simp_all
  finally show ?thesis unfolding ulp_def by simp
qed

section \<open>The recording wrapper is transparent\<close>

text \<open>
  An operation on the wrapped endpoint returns what it returns on the endpoint itself and
  leaves the device in the same state; only the record grows.
\<close>

lemma spy_transparent:
  assumes "perform (spy ep) op \<lparr>volume = Some (s, calls)\<rparr> = (r, self')"
  shows "\<exists>s' calls'. self' = \<lparr>volume = Some (s', calls')\<rparr>
           \<and> perform ep op \<lparr>volume = Some s\<rparr> = (r, \<lparr>volume = Some s'\<rparr>)"
  using assms
  by (cases op)
    (auto simp: facade_defs spy_defs Let_def split: prod.splits sum.splits if_splits)

section \<open>Comparisons\<close>

lemma float_lt_not_le: "float_lt x y \<Longrightarrow> \<not> float_le y x"
  by (cases x; cases y) auto

lemma out_of_range:
  "float_lt percentage (Finite 0) \<or> float_lt (Finite 100) percentage \<Longrightarrow>
   \<not> (float_le (Finite 0) percentage \<and> float_le percentage (Finite 100))"
  by (auto dest: float_lt_not_le)

lemma in_range_finite:
  "float_le (Finite 0) p \<Longrightarrow> float_le p (Finite 100) \<Longrightarrow>
   \<exists>x. p = Finite x \<and> 0 \<le> x \<and> x \<le> 100"
  by (cases p) auto

section \<open>Validation of the percentage\<close>

text \<open>
  C2.  On an initialised controller, \<open>set_volume\<close> with a percentage below 0 or above
  100 returns the error "Volume percentage must be between 0 and 100" and leaves the
  endpoint as it was, whatever the endpoint is: no call reaches it (the recording wrapper
  has recorded nothing new), and a following \<open>get_volume\<close> sees what it would have seen
  before.
\<close>

theorem set_volume_rejects_out_of_range:
  assumes "float_lt percentage (Finite 0) \<or> float_lt (Finite 100) percentage"
  shows "set_volume ep \<lparr>volume = Some s\<rparr> percentage =
           (Inr [(''error'', PyStr ''Volume percentage must be between 0 and 100''),
                 (''status'', PyStr ''error'')],
            \<lparr>volume = Some s\<rparr>)
         \<and> set_volume (spy ep) \<lparr>volume = Some (s, calls)\<rparr> percentage =
           (Inr [(''error'', PyStr ''Volume percentage must be between 0 and 100''),
                 (''status'', PyStr ''error'')],
            \<lparr>volume = Some (s, calls)\<rparr>)
         \<and> get_volume ep (snd (set_volume ep \<lparr>volume = Some s\<rparr> percentage)) =
             get_volume ep \<lparr>volume = Some s\<rparr>"
  using out_of_range [OF assms]
  by (simp add: set_volume_def with_volume_def raise_def error_result_def)

theorem set_volume_rejects_out_of_range_witness:
  "(float_lt (Finite 150) (Finite 0) \<or> float_lt (Finite 100) (Finite 150))
   \<and> set_volume fake \<lparr>volume = Some preset\<rparr> (Finite 150) =
       (Inr [(''error'', PyStr ''Volume percentage must be between 0 and 100''),
             (''status'', PyStr ''error'')],
        \<lparr>volume = Some preset\<rparr>)
   \<and> set_volume (spy fake) \<lparr>volume = Some (preset, [])\<rparr> (Finite 150) =
       (Inr [(''error'', PyStr ''Volume percentage must be between 0 and 100''),
             (''status'', PyStr ''error'')],
        \<lparr>volume = Some (preset, [])\<rparr>)"
proof -
  have h: "float_lt (Finite 150) (Finite 0) \<or> float_lt (Finite 100) (Finite 150)"
    by simp
  from set_volume_rejects_out_of_range [OF h, of fake preset "[]"] show ?thesis
    using h by simp
qed

section \<open>The fake endpoint keeps to both assumptions\<close>

lemma fake_getters_preserve_state: "getters_preserve_state fake"
  by (simp add: getters_preserve_state_def fake_defs split: option.splits)

lemma fake_failed_setter_changes_nothing: "failed_setter_changes_nothing fake"
  by (auto simp: failed_setter_changes_nothing_def fake_defs split: option.splits)

section \<open>A controller whose construction failed\<close>

lemma perform_uninitialised:
  "perform ep op \<lparr>volume = None\<rparr> =
     (Inr [(''error'', PyStr ''Audio interface not initialized''), (''status'', PyStr ''error'')],
      \<lparr>volume = None\<rparr>)"
  by (cases op) (simp_all add: facade_defs error_result_def)

lemma perform_all_uninitialised:
  "perform_all ep ops \<lparr>volume = None\<rparr> =
     (map (\<lambda>op. Inr [(''error'', PyStr ''Audio interface not initialized''),
                      (''status'', PyStr ''error'')]) ops,
      \<lparr>volume = None\<rparr>)"
  by (induction ops) (simp_all add: perform_uninitialised)

text \<open>
  C7.  When the endpoint cannot be acquired, \<open>__init__\<close> raises the cause and leaves
  \<open>_volume\<close> at \<open>None\<close>.  On that object each of the five operations returns the error
  "Audio interface not initialized" and leaves \<open>_volume\<close> at \<open>None\<close>: the handle is not
  acquired again, so every later call, in any sequence, gives the same answer.
\<close>

theorem failed_init_every_call_not_initialised:
  "init (Inl e) = (Some e, \<lparr>volume = None\<rparr>)
   \<and> perform ep op (snd (init (Inl e))) =
       (Inr [(''error'', PyStr ''Audio interface not initialized''), (''status'', PyStr ''error'')],
        snd (init (Inl e)))
   \<and> perform_all ep ops (snd (init (Inl e))) =
       (map (\<lambda>op. Inr [(''error'', PyStr ''Audio interface not initialized''),
                        (''status'', PyStr ''error'')]) ops,
        snd (init (Inl e)))"
  by (simp add: init_def initialize_audio_def perform_uninitialised perform_all_uninitialised)

theorem failed_init_every_call_not_initialised_witness:
  "perform_all fake [GetVolume, SetVolume (Finite 50), Mute, Unmute, ToggleMute]
     (snd (init (Inl (Raised OtherException ''no device'')))) =
     (replicate 5 (Inr [(''error'', PyStr ''Audio interface not initialized''),
                        (''status'', PyStr ''error'')]),
      \<lparr>volume = None\<rparr>)"
  using failed_init_every_call_not_initialised
    [of "Raised OtherException ''no device''" fake GetVolume
      "[GetVolume, SetVolume (Finite 50), Mute, Unmute, ToggleMute]"]
  by (simp add: init_def initialize_audio_def numeral_eq_Suc del: perform_all.simps perform.simps)

section \<open>Reading the volume changes nothing\<close>

lemma get_volume_calls:
  assumes "get_volume (spy ep) \<lparr>volume = Some (s, [])\<rparr> = (r, self')"
    and "volume self' = Some (s', calls)"
  shows "\<exists>o1 o2 o3. calls = [(CallGetMasterVolumeLevelScalar, o1)]
           \<or> calls = [(CallGetMasterVolumeLevelScalar, o1), (CallGetMasterVolumeLevel, o2)]
           \<or> calls = [(CallGetMasterVolumeLevelScalar, o1), (CallGetMasterVolumeLevel, o2),
                        (CallGetMute, o3)]"
  using assms
  by (auto simp: facade_defs spy_defs split: prod.splits sum.splits if_splits)

lemma get_volume_state:
  assumes "getters_preserve_state ep"
  shows "snd (get_volume ep \<lparr>volume = v\<rparr>) = \<lparr>volume = v\<rparr>"
proof (cases v)
  case None
  then show ?thesis by (simp add: facade_defs)
next
  case (Some s)
  have g1: "\<And>s x s'. GetMasterVolumeLevelScalar ep s = (x, s') \<Longrightarrow> s' = s"
    and g2: "\<And>s x s'. GetMasterVolumeLevel ep s = (x, s') \<Longrightarrow> s' = s"
    and g3: "\<And>s x s'. GetMute ep s = (x, s') \<Longrightarrow> s' = s"
    using assms unfolding getters_preserve_state_def by (metis snd_conv)+
  show ?thesis
    using Some
    by (auto simp: facade_defs split: prod.splits sum.splits dest: g1 g2 g3)
qed

text \<open>
  C9.  \<open>get_volume\<close> calls only the three getters: no call it makes on any endpoint is a
  write.  On an endpoint whose getters leave the device as it is, the controller and the
  device are the same after the call as before, whether it returned a reading, an error
  or raised.
\<close>

theorem get_volume_only_reads:
  "(get_volume (spy ep) \<lparr>volume = Some (s, [])\<rparr> = (r, self') \<and> volume self' = Some (s', calls)
      \<longrightarrow> (\<forall>entry \<in> set calls. \<not> is_write (fst entry)))
   \<and> (getters_preserve_state ep
      \<longrightarrow> snd (get_volume ep \<lparr>volume = v\<rparr>) = \<lparr>volume = v\<rparr>)"
proof (intro conjI impI)
  assume a: "get_volume (spy ep) \<lparr>volume = Some (s, [])\<rparr> = (r, self') \<and> volume self' = Some (s', calls)"
  from get_volume_calls [of ep s r self' s' calls] a
  show "\<forall>entry \<in> set calls. \<not> is_write (fst entry)" by auto
next
  assume "getters_preserve_state ep"
  then show "snd (get_volume ep \<lparr>volume = v\<rparr>) = \<lparr>volume = v\<rparr>" by (rule get_volume_state)
qed

theorem get_volume_only_reads_witness:
  "getters_preserve_state fake
   \<and> snd (get_volume fake \<lparr>volume = Some preset\<rparr>) = \<lparr>volume = Some preset\<rparr>
   \<and> snd (get_volume fake \<lparr>volume = Some (failing ''GetMute'' (Raised OtherException ''busy''))\<rparr>) =
       \<lparr>volume = Some (failing ''GetMute'' (Raised OtherException ''busy''))\<rparr>
   \<and> get_volume (spy fake)
       \<lparr>volume = Some (failing ''GetMute'' (Raised OtherException ''busy''), [])\<rparr> =
       (Inr [(''error'', PyStr ''busy''), (''status'', PyStr ''error'')],
        \<lparr>volume = Some (failing ''GetMute'' (Raised OtherException ''busy''),
           [(CallGetMasterVolumeLevelScalar, None), (CallGetMasterVolumeLevel, None),
            (CallGetMute, Some (Raised OtherException ''busy''))])\<rparr>)
   \<and> list_all (\<lambda>entry. \<not> is_write (fst entry))
       [(CallGetMasterVolumeLevelScalar, None), (CallGetMasterVolumeLevel, None),
        (CallGetMute, Some (Raised OtherException ''busy''))]"
proof -
  let ?f = "failing ''GetMute'' (Raised OtherException ''busy'')"
  let ?calls = "[(CallGetMasterVolumeLevelScalar, None), (CallGetMasterVolumeLevel, None),
        (CallGetMute, Some (Raised OtherException ''busy''))]"
  have run: "get_volume (spy fake) \<lparr>volume = Some (?f, [])\<rparr> =
       (Inr [(''error'', PyStr ''busy''), (''status'', PyStr ''error'')],
        \<lparr>volume = Some (?f, ?calls)\<rparr>)"
    by (simp add: facade_defs spy_defs fake_defs failing_def preset_def error_result_def)
  have st: "volume \<lparr>volume = Some (?f, ?calls)\<rparr> = Some (?f, ?calls)" by simp
  have reads: "\<forall>entry \<in> set ?calls. \<not> is_write (fst entry)"
    using get_volume_only_reads [of fake ?f _ _ ?f ?calls, THEN conjunct1, THEN mp, OF conjI,
        OF run st] .
  have same: "snd (get_volume fake \<lparr>volume = v\<rparr>) = \<lparr>volume = v\<rparr>" for v
    using get_volume_only_reads [of fake _ _ _ _ _ v, THEN conjunct2, THEN mp,
        OF fake_getters_preserve_state] .
  show ?thesis
    using run reads same fake_getters_preserve_state by (simp add: list_all_iff)
qed

section \<open>Mute and unmute\<close>

text \<open>
  C3.  \<open>mute\<close> reads the flag.  When the flag is set it returns "System was already
  muted" with \<open>was_muted\<close> and \<open>is_muted\<close> true, and the only call made is that read.
  Otherwise it calls \<open>SetMute(1)\<close> and, the call succeeding, returns "System muted
  successfully", \<open>was_muted\<close> false, \<open>is_muted\<close> true.  \<open>unmute\<close> is the mirror image,
  with \<open>SetMute(0)\<close>.
\<close>

theorem mute_unmute_idempotent:
  "(GetMute ep s = (Inr m, s1) \<and> py_bool m \<longrightarrow>
      mute (spy ep) \<lparr>volume = Some (s, [])\<rparr> =
        (Inr [(''message'', PyStr ''System was already muted''),
              (''was_muted'', PyBool True),
              (''is_muted'', PyBool True),
              (''status'', PyStr ''success'')],
         \<lparr>volume = Some (s1, [(CallGetMute, None)])\<rparr>))
   \<and> (GetMute ep s = (Inr m, s1) \<and> \<not> py_bool m \<and> SetMute ep 1 s1 = (Inr (), s2) \<longrightarrow>
      mute (spy ep) \<lparr>volume = Some (s, [])\<rparr> =
        (Inr [(''message'', PyStr ''System muted successfully''),
              (''was_muted'', PyBool False),
              (''is_muted'', PyBool True),
              (''status'', PyStr ''success'')],
         \<lparr>volume = Some (s2, [(CallGetMute, None), (CallSetMute 1, None)])\<rparr>))
   \<and> (GetMute ep s = (Inr m, s1) \<and> \<not> py_bool m \<longrightarrow>
      unmute (spy ep) \<lparr>volume = Some (s, [])\<rparr> =
        (Inr [(''message'', PyStr ''System was already unmuted''),
              (''was_muted'', PyBool False),
              (''is_muted'', PyBool False),
              (''status'', PyStr ''success'')],
         \<lparr>volume = Some (s1, [(CallGetMute, None)])\<rparr>))
   \<and> (GetMute ep s = (Inr m, s1) \<and> py_bool m \<and> SetMute ep 0 s1 = (Inr (), s2) \<longrightarrow>
      unmute (spy ep) \<lparr>volume = Some (s, [])\<rparr> =
        (Inr [(''message'', PyStr ''System unmuted successfully''),
              (''was_muted'', PyBool True),
              (''is_muted'', PyBool False),
              (''status'', PyStr ''success'')],
         \<lparr>volume = Some (s2, [(CallGetMute, None), (CallSetMute 0, None)])\<rparr>))"
  by (simp add: facade_defs spy_defs)

theorem mute_unmute_idempotent_witness:
  "GetMute fake preset = (Inr 0, preset) \<and> \<not> py_bool 0
   \<and> SetMute fake 1 preset = (Inr (), preset\<lparr>muted := True\<rparr>)
   \<and> mute (spy fake) \<lparr>volume = Some (preset, [])\<rparr> =
        (Inr [(''message'', PyStr ''System muted successfully''),
              (''was_muted'', PyBool False),
              (''is_muted'', PyBool True),
              (''status'', PyStr ''success'')],
         \<lparr>volume = Some (preset\<lparr>muted := True\<rparr>, [(CallGetMute, None), (CallSetMute 1, None)])\<rparr>)
   \<and> GetMute fake (preset\<lparr>muted := True\<rparr>) = (Inr 1, preset\<lparr>muted := True\<rparr>) \<and> py_bool 1
   \<and> mute (spy fake) \<lparr>volume = Some (preset\<lparr>muted := True\<rparr>, [])\<rparr> =
        (Inr [(''message'', PyStr ''System was already muted''),
              (''was_muted'', PyBool True),
              (''is_muted'', PyBool True),
              (''status'', PyStr ''success'')],
         \<lparr>volume = Some (preset\<lparr>muted := True\<rparr>, [(CallGetMute, None)])\<rparr>)
   \<and> SetMute fake 0 (preset\<lparr>muted := True\<rparr>) = (Inr (), preset)
   \<and> unmute (spy fake) \<lparr>volume = Some (preset\<lparr>muted := True\<rparr>, [])\<rparr> =
        (Inr [(''message'', PyStr ''System unmuted successfully''),
              (''was_muted'', PyBool True),
              (''is_muted'', PyBool False),
              (''status'', PyStr ''success'')],
         \<lparr>volume = Some (preset, [(CallGetMute, None), (CallSetMute 0, None)])\<rparr>)
   \<and> unmute (spy fake) \<lparr>volume = Some (preset, [])\<rparr> =
        (Inr [(''message'', PyStr ''System was already unmuted''),
              (''was_muted'', PyBool False),
              (''is_muted'', PyBool False),
              (''status'', PyStr ''success'')],
         \<lparr>volume = Some (preset, [(CallGetMute, None)])\<rparr>)"
proof -
  let ?on = "preset\<lparr>muted := True\<rparr>"
  have g0: "GetMute fake preset = (Inr 0, preset)"
    and g1: "GetMute fake ?on = (Inr 1, ?on)"
    and s1: "SetMute fake 1 preset = (Inr (), ?on)"
    and s0: "SetMute fake 0 ?on = (Inr (), preset)"
    by (simp_all add: fake_defs preset_def)
  have b: "\<not> py_bool 0" "py_bool 1" by (simp_all add: py_bool_def)
  note thm0 = mute_unmute_idempotent [of fake preset 0 preset ?on]
  note thm1 = mute_unmute_idempotent [of fake ?on 1 ?on preset]
  show ?thesis
    using thm0 thm1 g0 g1 s1 s0 b by simp
qed

section \<open>Toggling\<close>

lemma toggle_mute_fake:
  assumes "faults f = []"
  shows "toggle_mute fake \<lparr>volume = Some f\<rparr> =
     (Inr [(''message'',
            PyStr (if muted f then ''System unmuted successfully''
                   else ''System muted successfully'')),
           (''was_muted'', PyBool (muted f)),
           (''is_muted'', PyBool (\<not> muted f)),
           (''action'', PyStr (if muted f then ''unmuted'' else ''muted'')),
           (''status'', PyStr ''success'')],
      \<lparr>volume = Some (f\<lparr>muted := \<not> muted f\<rparr>)\<rparr>)"
  using assms by (simp add: facade_defs fake_defs py_bool_def Let_def)

text \<open>
  C4.  \<open>toggle_mute\<close> reads the flag and then always calls \<open>SetMute\<close> with its negation;
  when that call succeeds the result has \<open>was_muted\<close> the flag read, \<open>is_muted\<close> its
  negation and \<open>action\<close> "muted" or "unmuted" accordingly.  On the fake endpoint two
  toggles in a row bring the endpoint back to where it was and report opposite actions.
\<close>

theorem toggle_mute_always_writes:
  "(GetMute ep s = (Inr m, s1) \<and> SetMute ep (if py_bool m then 0 else 1) s1 = (w, s2) \<longrightarrow>
      snd (toggle_mute (spy ep) \<lparr>volume = Some (s, [])\<rparr>) =
        \<lparr>volume = Some (s2,
           [(CallGetMute, None),
            (CallSetMute (if py_bool m then 0 else 1),
             case w of Inl e \<Rightarrow> Some e | Inr u \<Rightarrow> None)])\<rparr>
      \<and> (w = Inr () \<longrightarrow>
           fst (toggle_mute (spy ep) \<lparr>volume = Some (s, [])\<rparr>) =
             Inr [(''message'',
                   PyStr (if py_bool m then ''System unmuted successfully''
                          else ''System muted successfully'')),
                  (''was_muted'', PyBool (py_bool m)),
                  (''is_muted'', PyBool (\<not> py_bool m)),
                  (''action'', PyStr (if py_bool m then ''unmuted'' else ''muted'')),
                  (''status'', PyStr ''success'')]))
   \<and> (faults f = [] \<longrightarrow>
      toggle_mute fake \<lparr>volume = Some f\<rparr> =
        (Inr [(''message'',
               PyStr (if muted f then ''System unmuted successfully''
                      else ''System muted successfully'')),
              (''was_muted'', PyBool (muted f)),
              (''is_muted'', PyBool (\<not> muted f)),
              (''action'', PyStr (if muted f then ''unmuted'' else ''muted'')),
              (''status'', PyStr ''success'')],
         \<lparr>volume = Some (f\<lparr>muted := \<not> muted f\<rparr>)\<rparr>)
      \<and> toggle_mute fake (snd (toggle_mute fake \<lparr>volume = Some f\<rparr>)) =
        (Inr [(''message'',
               PyStr (if muted f then ''System muted successfully''
                      else ''System unmuted successfully'')),
              (''was_muted'', PyBool (\<not> muted f)),
              (''is_muted'', PyBool (muted f)),
              (''action'', PyStr (if muted f then ''muted'' else ''unmuted'')),
              (''status'', PyStr ''success'')],
         \<lparr>volume = Some f\<rparr>))"
proof (intro conjI impI)
  assume "GetMute ep s = (Inr m, s1) \<and> SetMute ep (if py_bool m then 0 else 1) s1 = (w, s2)"
  then show "snd (toggle_mute (spy ep) \<lparr>volume = Some (s, [])\<rparr>) =
        \<lparr>volume = Some (s2,
           [(CallGetMute, None),
            (CallSetMute (if py_bool m then 0 else 1),
             case w of Inl e \<Rightarrow> Some e | Inr u \<Rightarrow> None)])\<rparr>"
    by (cases w) (auto simp: facade_defs spy_defs Let_def split: if_splits)
next
  assume "GetMute ep s = (Inr m, s1) \<and> SetMute ep (if py_bool m then 0 else 1) s1 = (w, s2)"
    and "w = Inr ()"
  then show "fst (toggle_mute (spy ep) \<lparr>volume = Some (s, [])\<rparr>) =
             Inr [(''message'',
                   PyStr (if py_bool m then ''System unmuted successfully''
                          else ''System muted successfully'')),
                  (''was_muted'', PyBool (py_bool m)),
                  (''is_muted'', PyBool (\<not> py_bool m)),
                  (''action'', PyStr (if py_bool m then ''unmuted'' else ''muted'')),
                  (''status'', PyStr ''success'')]"
    by (auto simp: facade_defs spy_defs Let_def split: if_splits)
next
  assume f: "faults f = []"
  then show "toggle_mute fake \<lparr>volume = Some f\<rparr> =
        (Inr [(''message'',
               PyStr (if muted f then ''System unmuted successfully''
                      else ''System muted successfully'')),
              (''was_muted'', PyBool (muted f)),
              (''is_muted'', PyBool (\<not> muted f)),
              (''action'', PyStr (if muted f then ''unmuted'' else ''muted'')),
              (''status'', PyStr ''success'')],
         \<lparr>volume = Some (f\<lparr>muted := \<not> muted f\<rparr>)\<rparr>)"
    by (rule toggle_mute_fake)
  have "faults (f\<lparr>muted := \<not> muted f\<rparr>) = []" using f by simp
  from toggle_mute_fake [OF this] toggle_mute_fake [OF f]
  show "toggle_mute fake (snd (toggle_mute fake \<lparr>volume = Some f\<rparr>)) =
        (Inr [(''message'',
               PyStr (if muted f then ''System muted successfully''
                      else ''System unmuted successfully'')),
              (''was_muted'', PyBool (\<not> muted f)),
              (''is_muted'', PyBool (muted f)),
              (''action'', PyStr (if muted f then ''muted'' else ''unmuted'')),
              (''status'', PyStr ''success'')],
         \<lparr>volume = Some f\<rparr>)"
    by simp
qed

theorem toggle_mute_always_writes_witness:
  "faults preset = []
   \<and> toggle_mute fake \<lparr>volume = Some preset\<rparr> =
        (Inr [(''message'', PyStr ''System muted successfully''),
              (''was_muted'', PyBool False),
              (''is_muted'', PyBool True),
              (''action'', PyStr ''muted''),
              (''status'', PyStr ''success'')],
         \<lparr>volume = Some (preset\<lparr>muted := True\<rparr>)\<rparr>)
   \<and> toggle_mute fake \<lparr>volume = Some (preset\<lparr>muted := True\<rparr>)\<rparr> =
        (Inr [(''message'', PyStr ''System unmuted successfully''),
              (''was_muted'', PyBool True),
              (''is_muted'', PyBool False),
              (''action'', PyStr ''unmuted''),
              (''status'', PyStr ''success'')],
         \<lparr>volume = Some preset\<rparr>)
   \<and> GetMute fake preset = (Inr 0, preset)
   \<and> SetMute fake 1 preset = (Inr (), preset\<lparr>muted := True\<rparr>)
   \<and> snd (toggle_mute (spy fake) \<lparr>volume = Some (preset, [])\<rparr>) =
        \<lparr>volume = Some (preset\<lparr>muted := True\<rparr>, [(CallGetMute, None), (CallSetMute 1, None)])\<rparr>"
proof -
  have f: "faults preset = []" and m: "\<not> muted preset" by (simp_all add: preset_def)
  have g: "GetMute fake preset = (Inr 0, preset)"
    and w: "SetMute fake (if py_bool 0 then 0 else 1) preset = (Inr (), preset\<lparr>muted := True\<rparr>)"
    by (simp_all add: fake_defs preset_def py_bool_def)
  note inst = toggle_mute_always_writes [of fake preset 0 preset "Inr ()" "preset\<lparr>muted := True\<rparr>" preset]
  note twice = inst [THEN conjunct2, THEN mp, OF f]
  have t1: "toggle_mute fake \<lparr>volume = Some preset\<rparr> =
        (Inr [(''message'', PyStr ''System muted successfully''),
              (''was_muted'', PyBool False),
              (''is_muted'', PyBool True),
              (''action'', PyStr ''muted''),
              (''status'', PyStr ''success'')],
         \<lparr>volume = Some (preset\<lparr>muted := True\<rparr>)\<rparr>)"
    using twice [THEN conjunct1] m by simp
  have "toggle_mute fake (snd (toggle_mute fake \<lparr>volume = Some preset\<rparr>)) =
        (Inr [(''message'', PyStr ''System unmuted successfully''),
              (''was_muted'', PyBool True),
              (''is_muted'', PyBool False),
              (''action'', PyStr ''unmuted''),
              (''status'', PyStr ''success'')],
         \<lparr>volume = Some preset\<rparr>)"
    using twice [THEN conjunct2] m by simp
  then have t2: "toggle_mute fake \<lparr>volume = Some (preset\<lparr>muted := True\<rparr>)\<rparr> =
        (Inr [(''message'', PyStr ''System unmuted successfully''),
              (''was_muted'', PyBool True),
              (''is_muted'', PyBool False),
              (''action'', PyStr ''unmuted''),
              (''status'', PyStr ''success'')],
         \<lparr>volume = Some preset\<rparr>)"
    by (simp add: t1)
  have t3: "snd (toggle_mute (spy fake) \<lparr>volume = Some (preset, [])\<rparr>) =
        \<lparr>volume = Some (preset\<lparr>muted := True\<rparr>, [(CallGetMute, None), (CallSetMute 1, None)])\<rparr>"
    using inst [THEN conjunct1, THEN mp, OF conjI, OF g w, THEN conjunct1]
    by (simp add: py_bool_def)
  show ?thesis
    using t1 t2 t3 f g w by (simp add: py_bool_def)
qed

section \<open>The write comes last\<close>

lemma mute_ops_calls:
  assumes "op \<in> {Mute, Unmute, ToggleMute}"
    and "perform (spy ep) op \<lparr>volume = Some (s, [])\<rparr> = (r, self')"
    and "volume self' = Some (s', calls)"
  shows "\<exists>o1 b o2. calls = [(CallGetMute, o1)]
           \<or> calls = [(CallGetMute, None), (CallSetMute b, o2)]"
  using assms
  by (auto simp: facade_defs spy_defs Let_def split: prod.splits sum.splits if_splits)

lemma mute_ops_error_state:
  assumes "getters_preserve_state ep" and "failed_setter_changes_nothing ep"
    and "op \<in> {Mute, Unmute, ToggleMute}"
    and "perform ep op \<lparr>volume = v\<rparr> = (Inr d, self')"
    and "is_error d"
  shows "self' = \<lparr>volume = v\<rparr>"
proof (cases v)
  case None
  with assms(3,4) show ?thesis by (auto simp: facade_defs)
next
  case (Some s)
  have g: "\<And>s x s'. GetMute ep s = (x, s') \<Longrightarrow> s' = s"
    using assms(1) unfolding getters_preserve_state_def by (metis snd_conv)
  have w: "\<And>b s e s'. SetMute ep b s = (Inl e, s') \<Longrightarrow> s' = s"
    using assms(2) unfolding failed_setter_changes_nothing_def by blast
  show ?thesis
    using Some assms(3,4,5)
    by (auto simp: facade_defs is_error_def Let_def split: prod.splits sum.splits if_splits)
      (blast dest: g w)+
qed

lemma mute_ops_error_cases:
  assumes "getters_preserve_state ep"
    and "op \<in> {Mute, Unmute, ToggleMute}"
    and "perform (spy ep) op \<lparr>volume = Some (s, [])\<rparr> = (Inr d, self')"
    and "is_error d"
    and "volume self' = Some (s', calls)"
  shows "(\<exists>e. calls = [(CallGetMute, Some e)] \<and> s' = s
            \<and> d = [(''error'', PyStr (str_exception e)), (''status'', PyStr ''error'')])
         \<or> (\<exists>b e. calls = [(CallGetMute, None), (CallSetMute b, Some e)]
            \<and> SetMute ep b s = (Inl e, s')
            \<and> d = [(''error'', PyStr (str_exception e)), (''status'', PyStr ''error'')])"
proof -
  have g: "\<And>s x s'. GetMute ep s = (x, s') \<Longrightarrow> s' = s"
    using assms(1) unfolding getters_preserve_state_def by (metis snd_conv)
  show ?thesis
    using assms(2-5)
    by (auto simp: facade_defs spy_defs is_error_def error_result_def Let_def
        split: prod.splits sum.splits if_splits dest!: g)
qed

lemma applies_then_raises_getters: "getters_preserve_state applies_then_raises"
  by (simp add: getters_preserve_state_def applies_then_raises_def fake_defs
      split: option.splits)

text \<open>
  C10, as amended.  In \<open>mute\<close>, \<open>unmute\<close> and \<open>toggle_mute\<close> a write, if there is one, is
  the last call made on the endpoint, so there is at most one.  Hence, on an endpoint
  whose getters leave the device as it is, an operation that returns the Error variant
  either made no write, \<open>GetMute\<close> having raised, and the device is unchanged; or its
  \<open>SetMute\<close> call raised, and the device is as that failed call left it.  It is
  unchanged when a setter that raises changes nothing.
\<close>

theorem mute_write_last_error_cases:
  "(op \<in> {Mute, Unmute, ToggleMute}
      \<and> perform (spy ep) op \<lparr>volume = Some (s, [])\<rparr> = (r, self')
      \<and> volume self' = Some (s', calls)
      \<longrightarrow> (\<forall>i < length calls. is_write (fst (calls ! i)) \<longrightarrow> Suc i = length calls))
   \<and> (getters_preserve_state ep \<and> op \<in> {Mute, Unmute, ToggleMute}
      \<and> perform (spy ep) op \<lparr>volume = Some (s, [])\<rparr> = (Inr d, self_e)
      \<and> is_error d \<and> volume self_e = Some (s_e, calls_e)
      \<longrightarrow>
        (\<exists>e. calls_e = [(CallGetMute, Some e)] \<and> s_e = s
            \<and> d = [(''error'', PyStr (str_exception e)), (''status'', PyStr ''error'')])
        \<or> (\<exists>b e. calls_e = [(CallGetMute, None), (CallSetMute b, Some e)]
            \<and> SetMute ep b s = (Inl e, s_e)
            \<and> d = [(''error'', PyStr (str_exception e)), (''status'', PyStr ''error'')]))
   \<and> (getters_preserve_state ep \<and> failed_setter_changes_nothing ep
      \<and> op \<in> {Mute, Unmute, ToggleMute}
      \<and> perform ep op \<lparr>volume = v\<rparr> = (Inr d', self'') \<and> is_error d'
      \<longrightarrow> self'' = \<lparr>volume = v\<rparr>)"
proof (intro conjI impI)
  assume a: "op \<in> {Mute, Unmute, ToggleMute}
      \<and> perform (spy ep) op \<lparr>volume = Some (s, [])\<rparr> = (r, self')
      \<and> volume self' = Some (s', calls)"
  then obtain o1 b o2 where
    "calls = [(CallGetMute, o1)] \<or> calls = [(CallGetMute, None), (CallSetMute b, o2)]"
    using mute_ops_calls [of op ep s r self' s' calls] by blast
  then show "\<forall>i < length calls. is_write (fst (calls ! i)) \<longrightarrow> Suc i = length calls"
    by (auto simp: less_Suc_eq)
next
  assume "getters_preserve_state ep \<and> op \<in> {Mute, Unmute, ToggleMute}
      \<and> perform (spy ep) op \<lparr>volume = Some (s, [])\<rparr> = (Inr d, self_e)
      \<and> is_error d \<and> volume self_e = Some (s_e, calls_e)"
  then have "getters_preserve_state ep" and "op \<in> {Mute, Unmute, ToggleMute}"
    and "perform (spy ep) op \<lparr>volume = Some (s, [])\<rparr> = (Inr d, self_e)"
    and "is_error d" and "volume self_e = Some (s_e, calls_e)"
    by simp_all
  then show "(\<exists>e. calls_e = [(CallGetMute, Some e)] \<and> s_e = s
            \<and> d = [(''error'', PyStr (str_exception e)), (''status'', PyStr ''error'')])
        \<or> (\<exists>b e. calls_e = [(CallGetMute, None), (CallSetMute b, Some e)]
            \<and> SetMute ep b s = (Inl e, s_e)
            \<and> d = [(''error'', PyStr (str_exception e)), (''status'', PyStr ''error'')])"
    by (rule mute_ops_error_cases)
next
  assume "getters_preserve_state ep \<and> failed_setter_changes_nothing ep
      \<and> op \<in> {Mute, Unmute, ToggleMute}
      \<and> perform ep op \<lparr>volume = v\<rparr> = (Inr d', self'') \<and> is_error d'"
  then show "self'' = \<lparr>volume = v\<rparr>"
    using mute_ops_error_state [of ep op v d' self''] by blast
qed

theorem mute_write_last_error_cases_witness:
  "perform fake ToggleMute \<lparr>volume = Some (failing ''SetMute'' (Raised OtherException ''busy''))\<rparr> =
     (Inr [(''error'', PyStr ''busy''), (''status'', PyStr ''error'')],
      \<lparr>volume = Some (failing ''SetMute'' (Raised OtherException ''busy''))\<rparr>)
   \<and> is_error [(''error'', PyStr ''busy''), (''status'', PyStr ''error'')]
   \<and> getters_preserve_state fake \<and> failed_setter_changes_nothing fake
   \<and> perform (spy fake) Mute \<lparr>volume = Some (preset, [])\<rparr> =
     (Inr [(''message'', PyStr ''System muted successfully''),
           (''was_muted'', PyBool False),
           (''is_muted'', PyBool True),
           (''status'', PyStr ''success'')],
      \<lparr>volume = Some (preset\<lparr>muted := True\<rparr>, [(CallGetMute, None), (CallSetMute 1, None)])\<rparr>)
   \<and> is_write (fst ([(CallGetMute, None), (CallSetMute 1, None :: py_exception option)] ! 1))
   \<and> \<not> is_write (fst ([(CallGetMute, None), (CallSetMute 1, None :: py_exception option)] ! 0))
   \<and> getters_preserve_state applies_then_raises
   \<and> perform (spy applies_then_raises) Mute \<lparr>volume = Some (preset, [])\<rparr> =
     (Inr [(''error'', PyStr ''change notification failed''), (''status'', PyStr ''error'')],
      \<lparr>volume = Some (preset\<lparr>muted := True\<rparr>,
         [(CallGetMute, None),
          (CallSetMute 1, Some (Raised OtherException ''change notification failed''))])\<rparr>)
   \<and> SetMute applies_then_raises 1 preset =
     (Inl (Raised OtherException ''change notification failed''), preset\<lparr>muted := True\<rparr>)"
proof -
  let ?f = "failing ''SetMute'' (Raised OtherException ''busy'')"
  let ?d = "[(''error'', PyStr ''busy''), (''status'', PyStr ''error'')]"
  let ?n = "Raised OtherException ''change notification failed''"
  let ?dn = "[(''error'', PyStr ''change notification failed''), (''status'', PyStr ''error'')]"
  let ?on = "preset\<lparr>muted := True\<rparr>"
  let ?calls = "[(CallGetMute, None), (CallSetMute 1, Some ?n)]"
  have run: "perform fake ToggleMute \<lparr>volume = Some ?f\<rparr> = (Inr ?d, snd (perform fake ToggleMute \<lparr>volume = Some ?f\<rparr>))"
    by (simp add: facade_defs fake_defs failing_def preset_def py_bool_def error_result_def Let_def)
  have err: "is_error ?d" by (simp add: is_error_def)
  have mem: "ToggleMute \<in> {Mute, Unmute, ToggleMute}" by simp
  have unchanged: "snd (perform fake ToggleMute \<lparr>volume = Some ?f\<rparr>) = \<lparr>volume = Some ?f\<rparr>"
    using mute_write_last_error_cases [where op = ToggleMute and ep = fake and v = "Some ?f"
        and d' = ?d and self'' = "snd (perform fake ToggleMute \<lparr>volume = Some ?f\<rparr>)"]
      fake_getters_preserve_state fake_failed_setter_changes_nothing run err mem
    by blast
  have run2: "perform (spy fake) Mute \<lparr>volume = Some (preset, [])\<rparr> =
     (Inr [(''message'', PyStr ''System muted successfully''),
           (''was_muted'', PyBool False),
           (''is_muted'', PyBool True),
           (''status'', PyStr ''success'')],
      \<lparr>volume = Some (preset\<lparr>muted := True\<rparr>, [(CallGetMute, None), (CallSetMute 1, None)])\<rparr>)"
    by (simp add: facade_defs spy_defs fake_defs preset_def py_bool_def)
  have run3: "perform (spy applies_then_raises) Mute \<lparr>volume = Some (preset, [])\<rparr> =
     (Inr ?dn, \<lparr>volume = Some (?on, ?calls)\<rparr>)"
    by (simp add: facade_defs spy_defs applies_then_raises_def fake_defs preset_def py_bool_def
        error_result_def)
  have errn: "is_error ?dn" by (simp add: is_error_def)
  have memn: "Mute \<in> {Mute, Unmute, ToggleMute}" by simp
  have st: "volume \<lparr>volume = Some (?on, ?calls)\<rparr> = Some (?on, ?calls)" by simp
  note cases = mute_write_last_error_cases [where op = Mute and ep = applies_then_raises
      and s = preset and d = ?dn and self_e = "\<lparr>volume = Some (?on, ?calls)\<rparr>"
      and s_e = ?on and calls_e = ?calls,
      THEN conjunct2, THEN conjunct1, THEN mp,
      OF conjI, OF applies_then_raises_getters conjI, OF memn conjI, OF run3 conjI, OF errn st]
  then have w: "SetMute applies_then_raises 1 preset = (Inl ?n, ?on)"
    by auto
  show ?thesis
    using run unchanged err run2 run3 w fake_getters_preserve_state
      fake_failed_setter_changes_nothing applies_then_raises_getters
    by simp
qed

text \<open>
  C10 as stated promises an unchanged mute flag whenever the Error variant is returned.
  On an endpoint whose \<open>SetMute\<close> stores the flag and then raises, \<open>mute\<close> returns the
  Error variant and the flag has gone from unset to set.
\<close>

theorem mute_error_after_write_counterexample:
  "mute applies_then_raises \<lparr>volume = Some preset\<rparr> =
     (Inr [(''error'', PyStr ''change notification failed''), (''status'', PyStr ''error'')],
      \<lparr>volume = Some (preset\<lparr>muted := True\<rparr>)\<rparr>)
   \<and> is_error [(''error'', PyStr ''change notification failed''), (''status'', PyStr ''error'')]
   \<and> muted preset = False
   \<and> muted (preset\<lparr>muted := True\<rparr>) = True"
  by (simp add: facade_defs applies_then_raises_def fake_defs preset_def py_bool_def
      error_result_def is_error_def)

section \<open>Reading the volume\<close>

lemma literal_0_57: "round_to_double (57 / 100) = Finite (5134103575202365 / 9007199254740992)"
  by (simp add: float_eval)

lemma literal_minus_12_345:
  "round_to_double (- 12345 / 1000) = Finite (- (6949617174986097 / 562949953421312))"
  by (simp add: float_eval)

lemma literal_minus_12_35:
  "round_to_double (- 1235 / 100) = Finite (- (6952431924753203 / 562949953421312))"
  by (simp add: float_eval)

lemma percentage_of_0_57:
  "py_round (float_mul (Finite (5134103575202365 / 9007199254740992)) (Finite 100)) 1 = Finite 57"
  by (simp add: float_eval)

lemma round_minus_12_345:
  "py_round (Finite (- (6949617174986097 / 562949953421312))) 2 =
   Finite (- (6952431924753203 / 562949953421312))"
  by (simp add: float_eval)

lemma get_volume_success:
  assumes "GetMasterVolumeLevelScalar ep s = (Inr volume_scalar, s1)"
    and "GetMasterVolumeLevel ep s1 = (Inr volume_db, s2)"
    and "GetMute ep s2 = (Inr is_muted, s3)"
  shows "get_volume (spy ep) \<lparr>volume = Some (s, [])\<rparr> =
     (Inr [(''volume_percentage'', PyFloat (py_round (float_mul volume_scalar (Finite 100)) 1)),
           (''volume_scalar'', PyFloat volume_scalar),
           (''volume_db'', PyFloat (py_round volume_db 2)),
           (''is_muted'', PyBool (is_muted \<noteq> 0)),
           (''status'', PyStr ''success'')],
      \<lparr>volume = Some (s3,
         [(CallGetMasterVolumeLevelScalar, None), (CallGetMasterVolumeLevel, None),
          (CallGetMute, None)])\<rparr>)"
  using assms by (simp add: facade_defs spy_defs py_bool_def)

lemma get_volume_fake:
  assumes "faults f = []"
  shows "get_volume fake \<lparr>volume = Some f\<rparr> =
     (Inr [(''volume_percentage'', PyFloat (py_round (float_mul (scalar f) (Finite 100)) 1)),
           (''volume_scalar'', PyFloat (scalar f)),
           (''volume_db'', PyFloat (py_round (level_db f) 2)),
           (''is_muted'', PyBool (muted f)),
           (''status'', PyStr ''success'')],
      \<lparr>volume = Some f\<rparr>)"
  using assms by (simp add: facade_defs fake_defs py_bool_def)

lemma preset_percentage:
  "py_round (float_mul (round_to_double (57 / 100)) (Finite 100)) 1 = Finite 57"
  unfolding literal_0_57 by (rule percentage_of_0_57)

lemma preset_decibels:
  "py_round (round_to_double (- 12345 / 1000)) 2 = round_to_double (- 1235 / 100)"
  unfolding literal_minus_12_345 literal_minus_12_35 by (rule round_minus_12_345)

lemma preset_fields:
  "scalar preset = round_to_double (57 / 100)"
  "level_db preset = round_to_double (- 12345 / 1000)"
  "muted preset = False"
  "faults preset = []"
  by (simp_all only: preset_def fake_endpoint.select_convs)

lemma get_volume_preset:
  "get_volume fake \<lparr>volume = Some preset\<rparr> =
     (Inr [(''volume_percentage'', PyFloat (Finite 57)),
           (''volume_scalar'', PyFloat (round_to_double (57 / 100))),
           (''volume_db'', PyFloat (round_to_double (- 1235 / 100))),
           (''is_muted'', PyBool False),
           (''status'', PyStr ''success'')],
      \<lparr>volume = Some preset\<rparr>)"
  unfolding get_volume_fake [OF preset_fields(4)] preset_fields preset_percentage preset_decibels
  by (rule refl)

lemma get_volume_preset_muted:
  "get_volume fake \<lparr>volume = Some (preset\<lparr>muted := True\<rparr>)\<rparr> =
     (Inr [(''volume_percentage'', PyFloat (Finite 57)),
           (''volume_scalar'', PyFloat (round_to_double (57 / 100))),
           (''volume_db'', PyFloat (round_to_double (- 1235 / 100))),
           (''is_muted'', PyBool True),
           (''status'', PyStr ''success'')],
      \<lparr>volume = Some (preset\<lparr>muted := True\<rparr>)\<rparr>)"
proof -
  have f: "faults (preset\<lparr>muted := True\<rparr>) = []"
    "scalar (preset\<lparr>muted := True\<rparr>) = round_to_double (57 / 100)"
    "level_db (preset\<lparr>muted := True\<rparr>) = round_to_double (- 12345 / 1000)"
    "muted (preset\<lparr>muted := True\<rparr>) = True"
    by (simp_all only: preset_fields fake_endpoint.select_convs fake_endpoint.update_convs
        preset_def)
  show ?thesis
    unfolding get_volume_fake [OF f(1)] f preset_percentage preset_decibels
    by (rule refl)
qed

text \<open>
  C6.  When the three getters return, \<open>get_volume\<close> has called them in the order scalar,
  level, mute flag, and returns success with the percentage \<open>round(scalar * 100, 1)\<close>,
  the scalar as read, the level rounded to two places and the mute flag as a boolean: true
  exactly when the value read is not zero.  On the fake endpoint preset to scalar
  \<open>0.57\<close>, \<open>-12.345\<close> dB, not muted, the reading is \<open>57.0\<close> per cent, scalar \<open>0.57\<close>,
  \<open>-12.35\<close> dB, not muted; on the same endpoint muted, it is the same reading, muted.
\<close>

theorem get_volume_reading:
  "(GetMasterVolumeLevelScalar ep s = (Inr volume_scalar, s1)
      \<and> GetMasterVolumeLevel ep s1 = (Inr volume_db, s2)
      \<and> GetMute ep s2 = (Inr is_muted, s3) \<longrightarrow>
      get_volume (spy ep) \<lparr>volume = Some (s, [])\<rparr> =
        (Inr [(''volume_percentage'', PyFloat (py_round (float_mul volume_scalar (Finite 100)) 1)),
              (''volume_scalar'', PyFloat volume_scalar),
              (''volume_db'', PyFloat (py_round volume_db 2)),
              (''is_muted'', PyBool (is_muted \<noteq> 0)),
              (''status'', PyStr ''success'')],
         \<lparr>volume = Some (s3,
            [(CallGetMasterVolumeLevelScalar, None), (CallGetMasterVolumeLevel, None),
             (CallGetMute, None)])\<rparr>))
   \<and> get_volume fake \<lparr>volume = Some preset\<rparr> =
        (Inr [(''volume_percentage'', PyFloat (Finite 57)),
              (''volume_scalar'', PyFloat (round_to_double (57 / 100))),
              (''volume_db'', PyFloat (round_to_double (- 1235 / 100))),
              (''is_muted'', PyBool False),
              (''status'', PyStr ''success'')],
         \<lparr>volume = Some preset\<rparr>)
   \<and> get_volume fake \<lparr>volume = Some (preset\<lparr>muted := True\<rparr>)\<rparr> =
        (Inr [(''volume_percentage'', PyFloat (Finite 57)),
              (''volume_scalar'', PyFloat (round_to_double (57 / 100))),
              (''volume_db'', PyFloat (round_to_double (- 1235 / 100))),
              (''is_muted'', PyBool True),
              (''status'', PyStr ''success'')],
         \<lparr>volume = Some (preset\<lparr>muted := True\<rparr>)\<rparr>)"
proof (intro conjI impI)
  assume "GetMasterVolumeLevelScalar ep s = (Inr volume_scalar, s1)
      \<and> GetMasterVolumeLevel ep s1 = (Inr volume_db, s2)
      \<and> GetMute ep s2 = (Inr is_muted, s3)"
  then have "GetMasterVolumeLevelScalar ep s = (Inr volume_scalar, s1)"
    and "GetMasterVolumeLevel ep s1 = (Inr volume_db, s2)"
    and "GetMute ep s2 = (Inr is_muted, s3)"
    by simp_all
  then show "get_volume (spy ep) \<lparr>volume = Some (s, [])\<rparr> =
        (Inr [(''volume_percentage'', PyFloat (py_round (float_mul volume_scalar (Finite 100)) 1)),
              (''volume_scalar'', PyFloat volume_scalar),
              (''volume_db'', PyFloat (py_round volume_db 2)),
              (''is_muted'', PyBool (is_muted \<noteq> 0)),
              (''status'', PyStr ''success'')],
         \<lparr>volume = Some (s3,
            [(CallGetMasterVolumeLevelScalar, None), (CallGetMasterVolumeLevel, None),
             (CallGetMute, None)])\<rparr>)"
    by (rule get_volume_success)
next
  show "get_volume fake \<lparr>volume = Some preset\<rparr> =
        (Inr [(''volume_percentage'', PyFloat (Finite 57)),
              (''volume_scalar'', PyFloat (round_to_double (57 / 100))),
              (''volume_db'', PyFloat (round_to_double (- 1235 / 100))),
              (''is_muted'', PyBool False),
              (''status'', PyStr ''success'')],
         \<lparr>volume = Some preset\<rparr>)"
    by (rule get_volume_preset)
next
  show "get_volume fake \<lparr>volume = Some (preset\<lparr>muted := True\<rparr>)\<rparr> =
        (Inr [(''volume_percentage'', PyFloat (Finite 57)),
              (''volume_scalar'', PyFloat (round_to_double (57 / 100))),
              (''volume_db'', PyFloat (round_to_double (- 1235 / 100))),
              (''is_muted'', PyBool True),
              (''status'', PyStr ''success'')],
         \<lparr>volume = Some (preset\<lparr>muted := True\<rparr>)\<rparr>)"
    by (rule get_volume_preset_muted)
qed

theorem get_volume_reading_witness:
  "GetMasterVolumeLevelScalar fake (preset\<lparr>muted := True\<rparr>) =
     (Inr (round_to_double (57 / 100)), preset\<lparr>muted := True\<rparr>)
   \<and> GetMasterVolumeLevel fake (preset\<lparr>muted := True\<rparr>) =
     (Inr (round_to_double (- 12345 / 1000)), preset\<lparr>muted := True\<rparr>)
   \<and> GetMute fake (preset\<lparr>muted := True\<rparr>) = (Inr 1, preset\<lparr>muted := True\<rparr>)
   \<and> get_volume (spy fake) \<lparr>volume = Some (preset\<lparr>muted := True\<rparr>, [])\<rparr> =
        (Inr [(''volume_percentage'', PyFloat (Finite 57)),
              (''volume_scalar'', PyFloat (round_to_double (57 / 100))),
              (''volume_db'', PyFloat (round_to_double (- 1235 / 100))),
              (''is_muted'', PyBool True),
              (''status'', PyStr ''success'')],
         \<lparr>volume = Some (preset\<lparr>muted := True\<rparr>,
            [(CallGetMasterVolumeLevelScalar, None), (CallGetMasterVolumeLevel, None),
             (CallGetMute, None)])\<rparr>)
   \<and> GetMute fake preset = (Inr 0, preset)
   \<and> get_volume (spy fake) \<lparr>volume = Some (preset, [])\<rparr> =
        (Inr [(''volume_percentage'', PyFloat (Finite 57)),
              (''volume_scalar'', PyFloat (round_to_double (57 / 100))),
              (''volume_db'', PyFloat (round_to_double (- 1235 / 100))),
              (''is_muted'', PyBool False),
              (''status'', PyStr ''success'')],
         \<lparr>volume = Some (preset,
            [(CallGetMasterVolumeLevelScalar, None), (CallGetMasterVolumeLevel, None),
             (CallGetMute, None)])\<rparr>)"
proof -
  let ?on = "preset\<lparr>muted := True\<rparr>"
  have g1: "GetMasterVolumeLevelScalar fake ?on = (Inr (round_to_double (57 / 100)), ?on)"
    and g2: "GetMasterVolumeLevel fake ?on = (Inr (round_to_double (- 12345 / 1000)), ?on)"
    and g3: "GetMute fake ?on = (Inr 1, ?on)"
    and h1: "GetMasterVolumeLevelScalar fake preset = (Inr (round_to_double (57 / 100)), preset)"
    and h2: "GetMasterVolumeLevel fake preset = (Inr (round_to_double (- 12345 / 1000)), preset)"
    and h3: "GetMute fake preset = (Inr 0, preset)"
    by (simp_all add: fake_defs preset_def)
  have b: "((1::int) \<noteq> 0) = True" "((0::int) \<noteq> 0) = False" by simp_all
  note on = get_volume_reading [of fake ?on _ ?on _ ?on 1 ?on,
      THEN conjunct1, THEN mp, OF conjI, OF g1 conjI, OF g2 g3]
  note off = get_volume_reading [of fake preset _ preset _ preset 0 preset,
      THEN conjunct1, THEN mp, OF conjI, OF h1 conjI, OF h2 h3]
  from on [unfolded preset_percentage preset_decibels b]
    off [unfolded preset_percentage preset_decibels b] g1 g2 g3 h3
  show ?thesis by blast
qed

section \<open>Setting the volume\<close>

lemma in_range_truediv:
  assumes "float_le (Finite 0) p" and "float_le p (Finite 100)"
  shows "\<exists>x. p = Finite x \<and> float_truediv p (Finite 100) = Inr (round_to_double (x / 100))"
  using in_range_finite [OF assms] by auto

lemma set_volume_success:
  assumes "float_le (Finite 0) p" and "float_le p (Finite 100)"
    and "float_truediv p (Finite 100) = Inr q"
    and "SetMasterVolumeLevelScalar ep q s = (Inr (), s1)"
    and "GetMasterVolumeLevelScalar ep s1 = (Inr a, s2)"
  shows "set_volume (spy ep) \<lparr>volume = Some (s, [])\<rparr> p =
     (Inr [(''requested_percentage'', PyFloat p),
           (''actual_percentage'', PyFloat (py_round (float_mul a (Finite 100)) 1)),
           (''volume_scalar'', PyFloat a),
           (''status'', PyStr ''success'')],
      \<lparr>volume = Some (s2,
         [(CallSetMasterVolumeLevelScalar q, None), (CallGetMasterVolumeLevelScalar, None)])\<rparr>)"
  using assms by (simp add: facade_defs spy_defs del: float_truediv.simps py_round.simps)

lemma set_volume_fake:
  assumes "float_le (Finite 0) p" and "float_le p (Finite 100)"
    and "float_truediv p (Finite 100) = Inr q"
    and "faults f = []"
  shows "set_volume fake \<lparr>volume = Some f\<rparr> p =
     (Inr [(''requested_percentage'', PyFloat p),
           (''actual_percentage'', PyFloat (py_round (float_mul q (Finite 100)) 1)),
           (''volume_scalar'', PyFloat q),
           (''status'', PyStr ''success'')],
      \<lparr>volume = Some (f\<lparr>scalar := q\<rparr>)\<rparr>)"
  using assms by (simp add: facade_defs fake_defs del: float_truediv.simps py_round.simps)

text \<open>
  Whole percentages survive the division by 100 and the multiplication by 100 that
  follows: every \<open>n\<close> from 0 to 100 is checked.
\<close>

lemma whole_0_25:
  "list_all (\<lambda>n. py_round (float_mul (round_to_double (rat_of_nat n / 100)) (Finite 100)) 1
                   = Finite (rat_of_nat n)
                \<and> py_round (Finite (rat_of_nat n)) 1 = Finite (rat_of_nat n)) [0..<26]"
  by (simp add: upt_rec float_eval)

lemma whole_26_50:
  "list_all (\<lambda>n. py_round (float_mul (round_to_double (rat_of_nat n / 100)) (Finite 100)) 1
                   = Finite (rat_of_nat n)
                \<and> py_round (Finite (rat_of_nat n)) 1 = Finite (rat_of_nat n)) [26..<51]"
  by (simp add: upt_rec float_eval)

lemma whole_51_75:
  "list_all (\<lambda>n. py_round (float_mul (round_to_double (rat_of_nat n / 100)) (Finite 100)) 1
                   = Finite (rat_of_nat n)
                \<and> py_round (Finite (rat_of_nat n)) 1 = Finite (rat_of_nat n)) [51..<76]"
  by (simp add: upt_rec float_eval)

lemma whole_76_100:
  "list_all (\<lambda>n. py_round (float_mul (round_to_double (rat_of_nat n / 100)) (Finite 100)) 1
                   = Finite (rat_of_nat n)
                \<and> py_round (Finite (rat_of_nat n)) 1 = Finite (rat_of_nat n)) [76..<101]"
  by (simp add: upt_rec float_eval)

lemma whole_percentage:
  assumes "n \<le> 100"
  shows "py_round (float_mul (round_to_double (rat_of_nat n / 100)) (Finite 100)) 1
           = Finite (rat_of_nat n)
         \<and> py_round (Finite (rat_of_nat n)) 1 = Finite (rat_of_nat n)"
proof -
  from assms have "n \<in> set [0..<26] \<or> n \<in> set [26..<51] \<or> n \<in> set [51..<76]
      \<or> n \<in> set [76..<101]"
    by (simp only: set_upt) auto
  then show ?thesis
    using whole_0_25 whole_26_50 whole_51_75 whole_76_100
    unfolding list_all_iff by blast
qed

text \<open>
  C5, as amended.  For a percentage \<open>p\<close> from 0 to 100, \<open>p / 100.0\<close> is a float \<open>q\<close>, and
  on an initialised controller, when the write and the read that follows it succeed,
  \<open>set_volume\<close> has called \<open>SetMasterVolumeLevelScalar(q)\<close> and then
  \<open>GetMasterVolumeLevelScalar\<close>, and returns success with \<open>requested_percentage\<close> equal
  to \<open>p\<close>, \<open>actual_percentage\<close> the scalar read times 100 rounded to one place, and that
  scalar.  On the fake endpoint, which returns the scalar it was given,
  \<open>actual_percentage\<close> is \<open>round(q * 100, 1)\<close>; for a whole percentage that is \<open>p\<close>
  itself, which is also \<open>round(p, 1)\<close>.
\<close>

theorem set_volume_reports_actual:
  assumes "float_le (Finite 0) p \<and> float_le p (Finite 100)"
  shows "\<exists>q. float_truediv p (Finite 100) = Inr q
     \<and> (\<forall>s s1 s2 a.
          SetMasterVolumeLevelScalar ep q s = (Inr (), s1)
          \<and> GetMasterVolumeLevelScalar ep s1 = (Inr a, s2) \<longrightarrow>
          set_volume (spy ep) \<lparr>volume = Some (s, [])\<rparr> p =
            (Inr [(''requested_percentage'', PyFloat p),
                  (''actual_percentage'', PyFloat (py_round (float_mul a (Finite 100)) 1)),
                  (''volume_scalar'', PyFloat a),
                  (''status'', PyStr ''success'')],
             \<lparr>volume = Some (s2,
                [(CallSetMasterVolumeLevelScalar q, None),
                 (CallGetMasterVolumeLevelScalar, None)])\<rparr>))
     \<and> (\<forall>f. faults f = [] \<longrightarrow>
          set_volume fake \<lparr>volume = Some f\<rparr> p =
            (Inr [(''requested_percentage'', PyFloat p),
                  (''actual_percentage'', PyFloat (py_round (float_mul q (Finite 100)) 1)),
                  (''volume_scalar'', PyFloat q),
                  (''status'', PyStr ''success'')],
             \<lparr>volume = Some (f\<lparr>scalar := q\<rparr>)\<rparr>))
     \<and> (\<forall>n \<le> 100. p = Finite (rat_of_nat n) \<longrightarrow>
          py_round (float_mul q (Finite 100)) 1 = p \<and> py_round p 1 = p)"
proof -
  from assms have lo: "float_le (Finite 0) p" and hi: "float_le p (Finite 100)" by simp_all
  from in_range_truediv [OF lo hi] obtain x where x: "p = Finite x"
    and qx: "float_truediv p (Finite 100) = Inr (round_to_double (x / 100))"
    by blast
  define q where "q = round_to_double (x / 100)"
  have q: "float_truediv p (Finite 100) = Inr q" using qx by (simp only: q_def)
  show ?thesis
  proof (intro exI conjI allI impI)
    show "float_truediv p (Finite 100) = Inr q" by (rule q)
  next
    fix s s1 s2 a
    assume "SetMasterVolumeLevelScalar ep q s = (Inr (), s1)
          \<and> GetMasterVolumeLevelScalar ep s1 = (Inr a, s2)"
    then have w: "SetMasterVolumeLevelScalar ep q s = (Inr (), s1)"
      and r: "GetMasterVolumeLevelScalar ep s1 = (Inr a, s2)"
      by simp_all
    show "set_volume (spy ep) \<lparr>volume = Some (s, [])\<rparr> p =
            (Inr [(''requested_percentage'', PyFloat p),
                  (''actual_percentage'', PyFloat (py_round (float_mul a (Finite 100)) 1)),
                  (''volume_scalar'', PyFloat a),
                  (''status'', PyStr ''success'')],
             \<lparr>volume = Some (s2,
                [(CallSetMasterVolumeLevelScalar q, None),
                 (CallGetMasterVolumeLevelScalar, None)])\<rparr>)"
      by (rule set_volume_success [OF lo hi q w r])
  next
    fix f :: fake_endpoint
    assume "faults f = []"
    then show "set_volume fake \<lparr>volume = Some f\<rparr> p =
            (Inr [(''requested_percentage'', PyFloat p),
                  (''actual_percentage'', PyFloat (py_round (float_mul q (Finite 100)) 1)),
                  (''volume_scalar'', PyFloat q),
                  (''status'', PyStr ''success'')],
             \<lparr>volume = Some (f\<lparr>scalar := q\<rparr>)\<rparr>)"
      by (rule set_volume_fake [OF lo hi q])
  next
    fix n :: nat
    assume n: "n \<le> 100" and pn: "p = Finite (rat_of_nat n)"
    from pn x have "x = rat_of_nat n" by simp
    then have qn: "q = round_to_double (rat_of_nat n / 100)" by (simp only: q_def)
    show "py_round (float_mul q (Finite 100)) 1 = p" and "py_round p 1 = p"
      unfolding qn pn using whole_percentage [OF n] by blast+
  qed
qed

lemma scalar_of_50: "float_truediv (Finite 50) (Finite 100) = Inr (Finite (1 / 2))"
  by (simp add: float_eval)

lemma percentage_of_half: "py_round (float_mul (Finite (1 / 2)) (Finite 100)) 1 = Finite 50"
  by (simp add: float_eval)

theorem set_volume_reports_actual_witness:
  "float_le (Finite 0) (Finite 50) \<and> float_le (Finite 50) (Finite 100)
   \<and> float_truediv (Finite 50) (Finite 100) = Inr (Finite (1 / 2))
   \<and> set_volume fake \<lparr>volume = Some preset\<rparr> (Finite 50) =
       (Inr [(''requested_percentage'', PyFloat (Finite 50)),
             (''actual_percentage'', PyFloat (Finite 50)),
             (''volume_scalar'', PyFloat (Finite (1 / 2))),
             (''status'', PyStr ''success'')],
        \<lparr>volume = Some (preset\<lparr>scalar := Finite (1 / 2)\<rparr>)\<rparr>)"
proof -
  have range: "float_le (Finite 0) (Finite 50) \<and> float_le (Finite 50) (Finite 100)"
    by simp
  from set_volume_reports_actual [OF range, of fake] obtain q where
    q: "float_truediv (Finite 50) (Finite 100) = Inr q"
    and run: "\<forall>f. faults f = [] \<longrightarrow>
          set_volume fake \<lparr>volume = Some f\<rparr> (Finite 50) =
            (Inr [(''requested_percentage'', PyFloat (Finite 50)),
                  (''actual_percentage'', PyFloat (py_round (float_mul q (Finite 100)) 1)),
                  (''volume_scalar'', PyFloat q),
                  (''status'', PyStr ''success'')],
             \<lparr>volume = Some (f\<lparr>scalar := q\<rparr>)\<rparr>)"
    by blast
  from q have half: "q = Finite (1 / 2)" unfolding scalar_of_50 by simp
  from run [rule_format, OF preset_fields(4)]
  have "set_volume fake \<lparr>volume = Some preset\<rparr> (Finite 50) =
       (Inr [(''requested_percentage'', PyFloat (Finite 50)),
             (''actual_percentage'', PyFloat (Finite 50)),
             (''volume_scalar'', PyFloat (Finite (1 / 2))),
             (''status'', PyStr ''success'')],
        \<lparr>volume = Some (preset\<lparr>scalar := Finite (1 / 2)\<rparr>)\<rparr>)"
    unfolding half percentage_of_half .
  with range scalar_of_50 show ?thesis by blast
qed

lemma literal_0_85: "round_to_double (85 / 100) = Finite (7656119366529843 / 9007199254740992)"
  by (simp add: float_eval)

lemma literal_0_8: "round_to_double (8 / 10) = Finite (3602879701896397 / 4503599627370496)"
  by (simp add: float_eval)

lemma literal_0_9: "round_to_double (9 / 10) = Finite (8106479329266893 / 9007199254740992)"
  by (simp add: float_eval)

lemma scalar_of_0_85:
  "float_truediv (Finite (7656119366529843 / 9007199254740992)) (Finite 100) =
   Inr (Finite (1224979098644775 / 144115188075855872))"
  by (simp add: float_eval)

lemma percentage_of_0_0085:
  "py_round (float_mul (Finite (1224979098644775 / 144115188075855872)) (Finite 100)) 1 =
   Finite (8106479329266893 / 9007199254740992)"
  by (simp add: float_eval)

lemma round_0_85:
  "py_round (Finite (7656119366529843 / 9007199254740992)) 1 =
   Finite (3602879701896397 / 4503599627370496)"
  by (simp add: float_eval)

lemma in_range_0_85:
  "float_le (Finite 0) (Finite (7656119366529843 / 9007199254740992))"
  "float_le (Finite (7656119366529843 / 9007199254740992)) (Finite 100)"
  by simp_all

text \<open>
  C5 as stated ends with: on the fake endpoint \<open>actual_percentage\<close> equals
  \<open>round(p, 1)\<close>.  For \<open>p = 0.85\<close> it does not: \<open>0.85 / 100.0 * 100\<close> is the float just
  above \<open>0.85\<close> and rounds to \<open>0.9\<close>, while \<open>0.85\<close> itself is just below and rounds to
  \<open>0.8\<close>.
\<close>

theorem set_volume_actual_differs_counterexample:
  "float_le (Finite 0) (round_to_double (85 / 100))
   \<and> float_le (round_to_double (85 / 100)) (Finite 100)
   \<and> fst (set_volume fake \<lparr>volume = Some preset\<rparr> (round_to_double (85 / 100))) =
       Inr [(''requested_percentage'', PyFloat (round_to_double (85 / 100))),
            (''actual_percentage'', PyFloat (round_to_double (9 / 10))),
            (''volume_scalar'', PyFloat (Finite (1224979098644775 / 144115188075855872))),
            (''status'', PyStr ''success'')]
   \<and> py_round (round_to_double (85 / 100)) 1 = round_to_double (8 / 10)
   \<and> round_to_double (9 / 10) \<noteq> round_to_double (8 / 10)"
  unfolding literal_0_85 literal_0_8 literal_0_9
    set_volume_fake [OF in_range_0_85 scalar_of_0_85 preset_fields(4)]
    percentage_of_0_0085 round_0_85
  using in_range_0_85 by simp

section \<open>The text the tools return\<close>

lemmas tool_defs = tool_get_volume_def tool_set_volume_def tool_mute_def tool_unmute_def
  tool_toggle_mute_def tool_def render_message_def render_error_def then_eval_def getitem_def

lemma tool_error:
  assumes "perform ep op self = (Inr [(''error'', PyStr msg), (''status'', PyStr ''error'')], self')"
  shows "perform_tool repr ep op self = (Inr (error_icon @ '' Error: '' @ msg), self')"
  using assms by (cases op) (simp_all add: tool_defs)

text \<open>
  C8, as amended.  Each tool returns an icon, a space and then the text of the
  specification: a reading renders as the speaker icon and
  "Volume: {percentage}% | Muted: Yes/No | dB: {db}", a volume that was set as the
  speaker icon and "Volume set to {actual}% (requested: {requested}%)", and the Error
  variant of any of the five operations as the error icon and "Error: {message}".
\<close>

theorem tools_render_with_icon:
  "(get_volume ep self =
      (Inr [(''volume_percentage'', PyFloat percentage),
            (''volume_scalar'', PyFloat scalar_read),
            (''volume_db'', PyFloat db),
            (''is_muted'', PyBool is_muted),
            (''status'', PyStr ''success'')], self') \<longrightarrow>
    tool_get_volume repr ep self =
      (Inr (speaker_icon @ '' Volume: '' @ repr percentage @ ''% | Muted: ''
            @ (if is_muted then ''Yes'' else ''No'') @ '' | dB: '' @ repr db), self'))
   \<and> (set_volume ep self p =
      (Inr [(''requested_percentage'', PyFloat requested),
            (''actual_percentage'', PyFloat actual),
            (''volume_scalar'', PyFloat scalar_read),
            (''status'', PyStr ''success'')], self') \<longrightarrow>
    tool_set_volume repr ep self p =
      (Inr (speaker_icon @ '' Volume set to '' @ repr actual @ ''% (requested: ''
            @ repr requested @ ''%)''), self'))
   \<and> (perform ep op self =
      (Inr [(''error'', PyStr msg), (''status'', PyStr ''error'')], self') \<longrightarrow>
    perform_tool repr ep op self = (Inr (error_icon @ '' Error: '' @ msg), self'))"
proof (intro conjI impI)
  assume "get_volume ep self =
      (Inr [(''volume_percentage'', PyFloat percentage),
            (''volume_scalar'', PyFloat scalar_read),
            (''volume_db'', PyFloat db),
            (''is_muted'', PyBool is_muted),
            (''status'', PyStr ''success'')], self')"
  then show "tool_get_volume repr ep self =
      (Inr (speaker_icon @ '' Volume: '' @ repr percentage @ ''% | Muted: ''
            @ (if is_muted then ''Yes'' else ''No'') @ '' | dB: '' @ repr db), self')"
    by (simp add: tool_defs)
next
  assume "set_volume ep self p =
      (Inr [(''requested_percentage'', PyFloat requested),
            (''actual_percentage'', PyFloat actual),
            (''volume_scalar'', PyFloat scalar_read),
            (''status'', PyStr ''success'')], self')"
  then show "tool_set_volume repr ep self p =
      (Inr (speaker_icon @ '' Volume set to '' @ repr actual @ ''% (requested: ''
            @ repr requested @ ''%)''), self')"
    by (simp add: tool_defs)
next
  assume "perform ep op self =
      (Inr [(''error'', PyStr msg), (''status'', PyStr ''error'')], self')"
  then show "perform_tool repr ep op self = (Inr (error_icon @ '' Error: '' @ msg), self')"
    by (rule tool_error)
qed

theorem tools_render_with_icon_witness:
  "tool_get_volume repr_example fake \<lparr>volume = Some preset\<rparr> =
     (Inr (speaker_icon @ '' Volume: 57.0% | Muted: No | dB: -12.35''), \<lparr>volume = Some preset\<rparr>)
   \<and> perform_tool repr_example fake (SetVolume (Finite 150)) \<lparr>volume = Some preset\<rparr> =
     (Inr (error_icon @ '' Error: Volume percentage must be between 0 and 100''),
      \<lparr>volume = Some preset\<rparr>)"
proof -
  have r: "repr_example (Finite 57) = ''57.0''"
    "repr_example (round_to_double (- 1235 / 100)) = ''-12.35''"
    unfolding literal_minus_12_35 by (simp_all add: repr_example_def)
  note inst = tools_render_with_icon [where ep = fake and self = "\<lparr>volume = Some preset\<rparr>"
      and self' = "\<lparr>volume = Some preset\<rparr>" and repr = repr_example
      and percentage = "Finite 57" and scalar_read = "round_to_double (57 / 100)"
      and db = "round_to_double (- 1235 / 100)" and is_muted = False
      and op = "SetVolume (Finite 150)"
      and msg = "''Volume percentage must be between 0 and 100''"]
  have a: "tool_get_volume repr_example fake \<lparr>volume = Some preset\<rparr> =
     (Inr (speaker_icon @ '' Volume: '' @ repr_example (Finite 57) @ ''% | Muted: ''
            @ (if False then ''Yes'' else ''No'') @ '' | dB: ''
            @ repr_example (round_to_double (- 1235 / 100))), \<lparr>volume = Some preset\<rparr>)"
    by (rule inst [THEN conjunct1, THEN mp, OF get_volume_preset])
  have err: "perform fake (SetVolume (Finite 150)) \<lparr>volume = Some preset\<rparr> =
      (Inr [(''error'', PyStr ''Volume percentage must be between 0 and 100''),
            (''status'', PyStr ''error'')], \<lparr>volume = Some preset\<rparr>)"
    by (simp add: set_volume_def with_volume_def raise_def error_result_def)
  note b = inst [THEN conjunct2, THEN conjunct2, THEN mp, OF err]
  show ?thesis
    using a b unfolding r by simp
qed

text \<open>
  C8 as stated gives the texts without the icon.  The \<open>mute\<close> tool on a controller that
  was not initialised returns the error icon, a space and the error text, which is not the
  string "Error: Audio interface not initialized".
\<close>

theorem tool_error_has_icon_counterexample:
  "tool_mute repr_example fake \<lparr>volume = None\<rparr> =
     (Inr (error_icon @ '' Error: Audio interface not initialized''), \<lparr>volume = None\<rparr>)
   \<and> error_icon @ '' Error: Audio interface not initialized'' \<noteq>
       ''Error: Audio interface not initialized''"
  by (simp add: tool_defs facade_defs error_result_def error_icon_def)

section \<open>Exceptions of the endpoint\<close>

text \<open>
  C1, as amended.  Whatever the endpoint and the operation: when a call on the endpoint
  raises an exception that is an instance of \<open>Exception\<close>, the operation returns the
  Error variant with that exception's message, and nothing is raised; when the exception
  is not an instance of \<open>Exception\<close>, it is not caught and the operation raises it.
\<close>

theorem endpoint_exception_caught_or_raised:
  assumes "perform (spy ep) op \<lparr>volume = Some (s, [])\<rparr> = (r, self')"
    and "volume self' = Some (s', calls)"
    and "(c, Some e) \<in> set calls"
  shows "(isinstance_Exception e \<longrightarrow>
            r = Inr [(''error'', PyStr (str_exception e)), (''status'', PyStr ''error'')])
         \<and> (\<not> isinstance_Exception e \<longrightarrow> r = Inl e)"
  using assms
  by (cases op)
    (auto simp: facade_defs spy_defs error_result_def Let_def
      split: prod.splits sum.splits if_splits)

theorem endpoint_exception_caught_or_raised_witness:
  "perform (spy fake) ToggleMute
     \<lparr>volume = Some (failing ''SetMute'' (Raised OtherException ''device lost''), [])\<rparr> =
     (Inr [(''error'', PyStr ''device lost''), (''status'', PyStr ''error'')],
      \<lparr>volume = Some (failing ''SetMute'' (Raised OtherException ''device lost''),
         [(CallGetMute, None), (CallSetMute 1, Some (Raised OtherException ''device lost''))])\<rparr>)
   \<and> isinstance_Exception (Raised OtherException ''device lost'')
   \<and> perform (spy fake) (SetVolume (Finite 50))
     \<lparr>volume = Some (failing ''GetMasterVolumeLevelScalar'' (Raised NonException ''interrupted''),
        [])\<rparr> =
     (Inl (Raised NonException ''interrupted''),
      \<lparr>volume = Some
         (failing ''GetMasterVolumeLevelScalar'' (Raised NonException ''interrupted'')
            \<lparr>scalar := Finite (1 / 2)\<rparr>,
          [(CallSetMasterVolumeLevelScalar (Finite (1 / 2)), None),
           (CallGetMasterVolumeLevelScalar, Some (Raised NonException ''interrupted''))])\<rparr>)
   \<and> \<not> isinstance_Exception (Raised NonException ''interrupted'')"
proof -
  let ?e = "Raised OtherException ''device lost''"
  let ?calls = "[(CallGetMute, None), (CallSetMute 1, Some ?e)]"
  let ?i = "Raised NonException ''interrupted''"
  let ?f = "failing ''GetMasterVolumeLevelScalar'' ?i"
  let ?calls2 = "[(CallSetMasterVolumeLevelScalar (Finite (1 / 2)), None),
           (CallGetMasterVolumeLevelScalar, Some ?i)]"
  obtain r self' where run:
    "perform (spy fake) ToggleMute \<lparr>volume = Some (failing ''SetMute'' ?e, [])\<rparr> = (r, self')"
    by (cases "perform (spy fake) ToggleMute \<lparr>volume = Some (failing ''SetMute'' ?e, [])\<rparr>")
  have state: "self' = \<lparr>volume = Some (failing ''SetMute'' ?e, ?calls)\<rparr>"
    using run
    by (simp add: facade_defs spy_defs fake_defs failing_def preset_def py_bool_def Let_def)
  have caught: "r = Inr [(''error'', PyStr (str_exception ?e)), (''status'', PyStr ''error'')]"
    using endpoint_exception_caught_or_raised [OF run, of _ ?calls "CallSetMute 1" ?e]
    by (simp add: state)
  obtain r2 self2 where run2:
    "perform (spy fake) (SetVolume (Finite 50)) \<lparr>volume = Some (?f, [])\<rparr> = (r2, self2)"
    by (cases "perform (spy fake) (SetVolume (Finite 50)) \<lparr>volume = Some (?f, [])\<rparr>")
  have state2: "self2 = \<lparr>volume = Some (?f\<lparr>scalar := Finite (1 / 2)\<rparr>, ?calls2)\<rparr>"
    using run2 scalar_of_50
    by (simp add: facade_defs spy_defs fake_defs failing_def preset_def
        del: float_truediv.simps)
  have raised: "r2 = Inl ?i"
    using endpoint_exception_caught_or_raised
      [OF run2, of _ ?calls2 CallGetMasterVolumeLevelScalar ?i]
    by (simp add: state2)
  from run state caught run2 state2 raised show ?thesis by simp
qed

text \<open>
  C1 as stated fails for an exception outside \<open>Exception\<close>: \<open>except Exception\<close> does
  not catch it.  Here \<open>GetMasterVolumeLevel\<close> raises one during \<open>get_volume\<close>, and
  \<open>get_volume\<close> raises it in turn instead of returning the Error variant.
\<close>

theorem non_Exception_propagates_counterexample:
  "get_volume (spy fake)
     \<lparr>volume = Some (failing ''GetMasterVolumeLevel'' (Raised NonException ''interrupted''), [])\<rparr> =
     (Inl (Raised NonException ''interrupted''),
      \<lparr>volume = Some (failing ''GetMasterVolumeLevel'' (Raised NonException ''interrupted''),
         [(CallGetMasterVolumeLevelScalar, None),
          (CallGetMasterVolumeLevel, Some (Raised NonException ''interrupted''))])\<rparr>)"
  by (simp add: facade_defs spy_defs fake_defs failing_def preset_def)

end
